theory Spec2Isabelle
  imports Main "HOL-Library.AList" "HOL-Library.Sublist"
begin

section \<open>Python values, dictionaries and exceptions\<close>

text \<open>
  The symbol table of \<^verbatim>\<open>logoasm/symtable.py\<close> is a module-level dictionary from
  symbol names to attribute dictionaries, and the syntax tree of
  \<^verbatim>\<open>compiler/compiler.py\<close> is built from strings, integers, lists, tuples and two
  shapes of dictionary. One datatype holds the Python values that occur:
  \<open>PNode name children\<close> is the dictionary \<^verbatim>\<open>{"name": name, "children": children}\<close>
  and \<open>PLeaf name value\<close> the dictionary \<^verbatim>\<open>{"name": name, "value": value}\<close>, both
  with a tuple in the second field. Strings are ASCII.
\<close>

datatype pyval =
    PNone
  | PInt int
  | PStr string
  | PList "pyval list"
  | PTuple "pyval list"
  | PNode string "pyval list"
  | PLeaf string "pyval list"

text \<open>
  An attribute dictionary (and a \<^verbatim>\<open>**kwargs\<close> dictionary) is an association list in
  insertion order; so is the table itself. \<^const>\<open>AList.update\<close> overwrites a key in
  place and appends a new key at the end, as assignment to a Python dictionary does.
\<close>

type_synonym pydict = "(string \<times> pyval) list"

text \<open>
  Exceptions are values. \<open>UnknownSymbol lineno symbol\<close> is the plain \<^verbatim>\<open>Exception\<close>
  raised by \<^verbatim>\<open>increment_symbol_usage\<close> with the message
  \<^verbatim>\<open>Unknown symbol:{lineno}:'{symbol}'\<close>.
\<close>

datatype error =
    AttributeError
  | TypeError
  | KeyError string
  | ValueError
  | UnknownSymbol pyval string
  | UndefinedReference string string

text \<open>
  Modelled from the spec: \<^verbatim>\<open>logovm/errors.py\<close>, which declares the exception class
  \<^verbatim>\<open>UndefinedReference\<close>, is not among the sources. The spec calls it an
  undefined-reference error naming the function; the constructor
  \<^const>\<open>UndefinedReference\<close> above keeps the two arguments the loader passes.
\<close>

definition dict_update :: "pydict \<Rightarrow> pydict \<Rightarrow> pydict" where
  \<comment> \<open>\<^verbatim>\<open>d.update(kwargs)\<close>\<close>
  "dict_update d kwargs = fold (\<lambda>(k, v) acc. AList.update k v acc) kwargs d"

definition upper_char :: "char \<Rightarrow> char" where
  "upper_char c =
     (case map_of (zip ''abcdefghijklmnopqrstuvwxyz'' ''ABCDEFGHIJKLMNOPQRSTUVWXYZ'') c of
        Some u \<Rightarrow> u
      | None \<Rightarrow> c)"

definition upper :: "string \<Rightarrow> string" where
  \<comment> \<open>\<^verbatim>\<open>str.upper()\<close> on ASCII text\<close>
  "upper s = map upper_char s"

section \<open>The symbol table (\<^verbatim>\<open>logoasm/symtable.py\<close>)\<close>

text \<open>
  The two module globals, \<^verbatim>\<open>__symtable\<close> and \<^verbatim>\<open>case_insensitive_symtable\<close>, are
  the state every operation receives and returns.
\<close>

record symstate =
  symtable :: "(string \<times> pydict) list"
  case_insensitive_symtable :: bool

definition initial_state :: symstate where
  \<comment> \<open>the globals as the module sets them at import\<close>
  "initial_state = \<lparr>symtable = [], case_insensitive_symtable = False\<rparr>"

text \<open>
  Both exception classes call \<^verbatim>\<open>super.__init__(...)\<close> on the bare type
  \<^verbatim>\<open>super\<close> (the call parentheses after \<^verbatim>\<open>super\<close> are missing). Python first
  evaluates the f-string argument, which raises \<^verbatim>\<open>KeyError\<close> on a missing dictionary
  key, and then raises \<^verbatim>\<open>TypeError\<close> (descriptor \<^verbatim>\<open>__init__\<close> requires a
  \<^verbatim>\<open>super\<close> object but received a \<^verbatim>\<open>str\<close>). So evaluating
  \<^verbatim>\<open>raise InternalError(msg)\<close> raises \<^verbatim>\<open>TypeError\<close>, and no object of either class
  is ever built. The two definitions give the exception that the \<^verbatim>\<open>raise\<close> statement
  ends with.
\<close>

definition SymbolRedefinitionError :: "pydict \<Rightarrow> pyval \<Rightarrow> string \<Rightarrow> error" where
  "SymbolRedefinitionError symbol lineno original =
     (if original = [] \<and> map_of symbol ''name'' = None then KeyError ''name''
      else if map_of symbol ''lineno'' = None then KeyError ''lineno''
      else TypeError)"

definition InternalError :: "string \<Rightarrow> error" where
  \<comment> \<open>whatever the message is; \<open>CHR 0x27\<close> in a message below is the quote character\<close>
  "InternalError msg = TypeError"

definition tr_symbol :: "symstate \<Rightarrow> string \<Rightarrow> string \<times> string" where
  "tr_symbol st symbol =
     (if case_insensitive_symtable st then upper symbol else symbol, symbol)"

definition str_get :: "string \<Rightarrow> string \<Rightarrow> error + pyval" where
  \<comment> \<open>\<^verbatim>\<open>symbol.get("lineno")\<close> on a \<^verbatim>\<open>str\<close>: the type has no attribute \<^verbatim>\<open>get\<close>\<close>
  "str_get symbol key = Inl AttributeError"

definition py_ge :: "pyval \<Rightarrow> int \<Rightarrow> error + bool" where
  \<comment> \<open>\<^verbatim>\<open>v >= n\<close>; ordering anything but an integer against an integer raises\<close>
  "py_ge v n = (case v of PInt i \<Rightarrow> Inr (i \<ge> n) | _ \<Rightarrow> Inl TypeError)"

definition py_lt :: "pyval \<Rightarrow> int \<Rightarrow> error + bool" where
  "py_lt v n = (case v of PInt i \<Rightarrow> Inr (i < n) | _ \<Rightarrow> Inl TypeError)"

definition new_entry :: "string \<Rightarrow> pyval \<Rightarrow> pydict \<Rightarrow> symstate \<Rightarrow> symstate" where
  \<comment> \<open>the \<^verbatim>\<open>else\<close> branch of \<^verbatim>\<open>add_symbol\<close>: \<^verbatim>\<open>kwargs\<close> gets the name and the type and
      becomes the entry\<close>
  "new_entry symbol sym_type kwargs st =
     st\<lparr>symtable :=
       AList.update symbol
         (AList.update ''type'' sym_type (AList.update ''name'' (PStr symbol) kwargs))
         (symtable st)\<rparr>"

definition add_symbol :: "string \<Rightarrow> pyval \<Rightarrow> pydict \<Rightarrow> symstate \<Rightarrow> error + symstate" where
  \<comment> \<open>\<^verbatim>\<open>if obj:\<close> holds for a dictionary that is not empty; line 54 then reads
      \<^verbatim>\<open>symbol.get("lineno")\<close>, where \<^verbatim>\<open>symbol\<close> is the translated name, a string\<close>
  "add_symbol symbol0 sym_type kwargs st =
     (case tr_symbol st symbol0 of (symbol, original) \<Rightarrow>
        (case map_of (symtable st) symbol of
           None \<Rightarrow> Inr (new_entry symbol sym_type kwargs st)
         | Some obj \<Rightarrow>
             if obj \<noteq> [] then
               (case str_get symbol ''lineno'' of
                  Inl e \<Rightarrow> Inl e
                | Inr lineno \<Rightarrow>
                    (case py_ge lineno 0 of
                       Inl e \<Rightarrow> Inl e
                     | Inr True \<Rightarrow> Inl (SymbolRedefinitionError obj lineno original)
                     | Inr False \<Rightarrow>
                         Inr (st\<lparr>symtable :=
                           AList.update symbol (dict_update obj kwargs) (symtable st)\<rparr>)))
             else Inr (new_entry symbol sym_type kwargs st)))"

definition set_symbol :: "string \<Rightarrow> pydict \<Rightarrow> symstate \<Rightarrow> error + symstate" where
  "set_symbol symbol0 kwargs st =
     (case tr_symbol st symbol0 of (symbol, original) \<Rightarrow>
        (case map_of (symtable st) symbol of
           None \<Rightarrow> Inl (InternalError (''Symbol not defined: '' @ original))
         | Some obj \<Rightarrow>
             if ''name'' \<in> fst ` set kwargs then
               Inl (InternalError
                 (''Cannot modify symbol '' @ [CHR 0x27] @ original @ [CHR 0x27] @
                  '' attribute '' @ [CHR 0x27] @ ''name'' @ [CHR 0x27] @ ''.''))
             else
               (case (if ''lineno'' \<in> fst ` set kwargs
                      then (case py_lt (case map_of obj ''lineno'' of
                                          None \<Rightarrow> PInt (- 1) | Some l \<Rightarrow> l) 0 of
                              Inl e \<Rightarrow> Inl e
                            | Inr b \<Rightarrow> Inr (\<not> b))
                      else Inr False) of
                  Inl e \<Rightarrow> Inl e
                | Inr True \<Rightarrow>
                    Inl (InternalError
                      (''Cannot modify symbol '' @ original @
                       '' attribute '' @ [CHR 0x27] @ ''line'' @ [CHR 0x27] @ ''.''))
                | Inr False \<Rightarrow>
                    Inr (st\<lparr>symtable :=
                      AList.update symbol (dict_update obj kwargs) (symtable st)\<rparr>))))"

definition get_symbol :: "string \<Rightarrow> symstate \<Rightarrow> pydict option" where
  "get_symbol symbol st = map_of (symtable st) (fst (tr_symbol st symbol))"

fun by_class :: "pyval \<Rightarrow> (string \<times> pydict) list \<Rightarrow> error + (string \<times> pydict) list" where
  "by_class symtype [] = Inr []"
| "by_class symtype ((k, v) # items) =
     (case map_of v ''type'' of
        None \<Rightarrow> Inl (KeyError ''type'')
      | Some t \<Rightarrow>
          (case by_class symtype items of
             Inl e \<Rightarrow> Inl e
           | Inr found \<Rightarrow> Inr (if t = symtype then (k, v) # found else found)))"

definition get_symbols_by_class :: "pyval \<Rightarrow> symstate \<Rightarrow> error + (string \<times> pydict) list" where
  \<comment> \<open>the comprehension over \<^verbatim>\<open>__symtable.items()\<close>; \<^verbatim>\<open>v["type"]\<close> raises on an entry
      with no type\<close>
  "get_symbols_by_class symtype st = by_class symtype (symtable st)"

definition remove_symbol :: "string \<Rightarrow> symstate \<Rightarrow> error + symstate" where
  "remove_symbol symbol0 st =
     (case tr_symbol st symbol0 of (symbol, original) \<Rightarrow>
        if symbol \<in> fst ` set (symtable st)
        then Inr (st\<lparr>symtable := AList.delete symbol (symtable st)\<rparr>)
        else Inl (InternalError (''Symbol not defined: '' @ original)))"

definition py_add :: "pyval \<Rightarrow> int \<Rightarrow> error + pyval" where
  \<comment> \<open>\<^verbatim>\<open>v + amount\<close> for an integer amount\<close>
  "py_add v amount = (case v of PInt i \<Rightarrow> Inr (PInt (i + amount)) | _ \<Rightarrow> Inl TypeError)"

definition increment_symbol_usage :: "string \<Rightarrow> pyval \<Rightarrow> int \<Rightarrow> symstate \<Rightarrow> error + symstate" where
  "increment_symbol_usage symbol lineno amount st =
     (case get_symbol symbol st of
        None \<Rightarrow> Inl (UnknownSymbol lineno symbol)
      | Some sym_obj \<Rightarrow>
          (case py_add (case map_of sym_obj ''usage'' of None \<Rightarrow> PInt 0 | Some u \<Rightarrow> u) amount of
             Inl e \<Rightarrow> Inl e
           | Inr usage \<Rightarrow> set_symbol symbol [(''usage'', usage)] st))"

section \<open>The loader (\<^verbatim>\<open>logovm/loader.py\<close>)\<close>

definition py_iter :: "pyval \<Rightarrow> error + pyval list" where
  \<comment> \<open>what a \<^verbatim>\<open>for\<close> loop runs over: the items of a list or a tuple, the characters of a
      string, the keys of a dictionary; \<^verbatim>\<open>None\<close> and integers are not iterable\<close>
  "py_iter v =
     (case v of
        PList xs \<Rightarrow> Inr xs
      | PTuple xs \<Rightarrow> Inr xs
      | PStr s \<Rightarrow> Inr (map (\<lambda>c. PStr [c]) s)
      | PNode n c \<Rightarrow> Inr [PStr ''name'', PStr ''children'']
      | PLeaf n c \<Rightarrow> Inr [PStr ''name'', PStr ''value'']
      | _ \<Rightarrow> Inl TypeError)"

definition split1 :: "string \<Rightarrow> string list" where
  \<comment> \<open>\<^verbatim>\<open>cmd.split(" ", 1)\<close>: cut at the first space, if there is one\<close>
  "split1 s =
     (if CHR '' '' \<in> set s
      then [takeWhile (\<lambda>c. c \<noteq> CHR '' '') s, tl (dropWhile (\<lambda>c. c \<noteq> CHR '' '') s)]
      else [s])"

text \<open>
  The body of the inner loop, for one pair of \<^verbatim>\<open>enumerate(code)\<close>.
  \<^verbatim>\<open>cmd.startswith\<close> exists on strings only; unpacking the split into two names raises
  \<^verbatim>\<open>ValueError\<close> unless it has two parts.
\<close>

definition load_cmd :: "nat \<Rightarrow> pyval \<Rightarrow> symstate \<Rightarrow> error + symstate" where
  "load_cmd addr cmd st =
     (case cmd of
        PStr c \<Rightarrow>
          if prefix ''LABEL'' c then
            (case split1 c of
               [u, name] \<Rightarrow> set_symbol name [(''pc'', PInt (int addr))] st
             | _ \<Rightarrow> Inl ValueError)
          else Inr st
      | _ \<Rightarrow> Inl AttributeError)"

fun load_code :: "(nat \<times> pyval) list \<Rightarrow> symstate \<Rightarrow> error + symstate" where
  "load_code [] st = Inr st"
| "load_code ((addr, cmd) # rest) st =
     (case load_cmd addr cmd st of
        Inl e \<Rightarrow> Inl e
      | Inr st' \<Rightarrow> load_code rest st')"

text \<open>
  The body of the outer loop, for one item of \<^verbatim>\<open>get_symbols_by_class("FUNC")\<close>. That
  dictionary is built before the first write. Its values are the table's own entry
  objects, but the only write of the loader is the attribute \<^verbatim>\<open>pc\<close>, and the loop
  reads \<^verbatim>\<open>code\<close> alone, so reading the entries as they were at the start gives what
  the loop sees. \<^verbatim>\<open>logging.error\<close> writes to the log and is left out. On an exception
  the result is the exception alone; the label writes made before it are each a
  \<^const>\<open>set_symbol\<close> call.
\<close>

definition load_func :: "string \<Rightarrow> pydict \<Rightarrow> symstate \<Rightarrow> error + symstate" where
  "load_func symbol data st =
     (let code = (case map_of data ''code'' of None \<Rightarrow> PNone | Some c \<Rightarrow> c) in
      if code = PNone then Inl (UndefinedReference ''FUNCTION'' symbol)
      else
        (case py_iter code of
           Inl e \<Rightarrow> Inl e
         | Inr cmds \<Rightarrow> load_code (zip [0..<length cmds] cmds) st))"

fun load_funcs :: "(string \<times> pydict) list \<Rightarrow> symstate \<Rightarrow> error + symstate" where
  "load_funcs [] st = Inr st"
| "load_funcs ((symbol, data) # rest) st =
     (case load_func symbol data st of
        Inl e \<Rightarrow> Inl e
      | Inr st' \<Rightarrow> load_funcs rest st')"

definition loader :: "symstate \<Rightarrow> error + symstate" where
  "loader st =
     (case get_symbols_by_class (PStr ''FUNC'') st of
        Inl e \<Rightarrow> Inl e
      | Inr funcs \<Rightarrow> load_funcs funcs st)"

text \<open>
  The writes of the loader, read off the two loops: the key of the table that the inner
  loop writes for one instruction (the translated operand of a \<^verbatim>\<open>LABEL\<close> instruction
  that splits in two; no other instruction writes), and the keys written for the code
  list of one \<^verbatim>\<open>FUNC\<close> entry. They name the labels a later \<^verbatim>\<open>FUNC\<close> symbol would
  overwrite.
\<close>

definition label_key :: "symstate \<Rightarrow> pyval \<Rightarrow> string option" where
  "label_key st cmd =
     (case cmd of
        PStr c \<Rightarrow>
          if prefix ''LABEL'' c then
            (case split1 c of
               [u, name] \<Rightarrow> Some (fst (tr_symbol st name))
             | _ \<Rightarrow> None)
          else None
      | _ \<Rightarrow> None)"

definition labels_of_func :: "symstate \<Rightarrow> pydict \<Rightarrow> string set" where
  "labels_of_func st data =
     (case map_of data ''code'' of
        None \<Rightarrow> {}
      | Some code \<Rightarrow>
          (case py_iter code of
             Inl e \<Rightarrow> {}
           | Inr cmds \<Rightarrow> set (List.map_filter (label_key st) cmds)))"

section \<open>The lexer (\<^verbatim>\<open>compiler/compiler.py\<close>)\<close>

text \<open>
  A token of the lexer: its type, its value (the matched text, or the integer
  \<^verbatim>\<open>t_NUMBER\<close> converts it to), the line and the position in the input.
\<close>

datatype lextoken =
  LexToken (tok_type: string) (tok_value: pyval) (tok_lineno: int) (tok_lexpos: nat)

definition t_ignore :: string where
  "t_ignore = [CHR '' '', CHR 0x09]"

definition simple_tokens :: "(char \<times> string) list" where
  \<comment> \<open>the token rules given as strings, each matching one character\<close>
  "simple_tokens =
     [(CHR '':'', ''COLON''), (CHR ''+'', ''PLUS''), (CHR ''-'', ''MINUS''),
      (CHR ''*'', ''TIMES''), (CHR ''/'', ''DIVIDE''), (CHR ''('', ''LPAREN''),
      (CHR '')'', ''RPAREN'')]"

definition reserved :: "(string \<times> string) list" where
  "reserved =
     [(''if'', ''IF''), (''then'', ''THEN''), (''else'', ''ELSE''), (''end'', ''END''),
      (''while'', ''WHILE''), (''not'', ''NOT''), (''to'', ''TO''), (''and'', ''AND''),
      (''or'', ''OR''), (''set'', ''SET'')]"

definition reserved_get :: "string \<Rightarrow> string \<Rightarrow> string" where
  \<comment> \<open>\<^verbatim>\<open>reserved.get(key, default)\<close>\<close>
  "reserved_get key dflt = (case map_of reserved key of None \<Rightarrow> dflt | Some v \<Rightarrow> v)"

definition is_digit :: "char \<Rightarrow> bool" where
  "is_digit c \<longleftrightarrow> c \<in> set ''0123456789''"

definition is_id_start :: "char \<Rightarrow> bool" where
  \<comment> \<open>\<^verbatim>\<open>[a-zA-Z_]\<close>\<close>
  "is_id_start c \<longleftrightarrow>
     c \<in> set ''abcdefghijklmnopqrstuvwxyzABCDEFGHIJKLMNOPQRSTUVWXYZ_''"

definition is_id_char :: "char \<Rightarrow> bool" where
  \<comment> \<open>\<^verbatim>\<open>[a-zA-Z0-9_]\<close>\<close>
  "is_id_char c \<longleftrightarrow> is_id_start c \<or> is_digit c"

definition digit_value :: "char \<Rightarrow> int" where
  "digit_value c =
     (case map_of (zip ''0123456789'' [0, 1, 2, 3, 4, 5, 6, 7, 8, 9]) c of
        Some d \<Rightarrow> d
      | None \<Rightarrow> 0)"

definition int_of_digits :: "string \<Rightarrow> int" where
  \<comment> \<open>\<^verbatim>\<open>int(t.value)\<close> on a run of decimal digits\<close>
  "int_of_digits ds = foldl (\<lambda>n c. 10 * n + digit_value c) 0 ds"

definition t_NUMBER :: "string \<Rightarrow> int \<Rightarrow> nat \<Rightarrow> lextoken" where
  "t_NUMBER text lineno lexpos = LexToken ''NUMBER'' (PInt (int_of_digits text)) lineno lexpos"

definition t_ID :: "string \<Rightarrow> int \<Rightarrow> nat \<Rightarrow> lextoken" where
  \<comment> \<open>\<^verbatim>\<open>t.type = reserved.get(t.value.upper(), 'ID')\<close>; the value stays the matched text\<close>
  "t_ID text lineno lexpos = LexToken (reserved_get (upper text) ''ID'') (PStr text) lineno lexpos"

text \<open>
  The token loop of the lexer that \<^verbatim>\<open>lex()\<close> builds from these rules, run to the end
  of the input. At each position a character of \<^verbatim>\<open>t_ignore\<close> is skipped; otherwise
  the rules are tried in the order of the master pattern: the function rules
  \<^verbatim>\<open>t_NUMBER\<close>, \<^verbatim>\<open>t_ID\<close> and \<^verbatim>\<open>t_ignore_newline\<close> as defined, each with its longest
  match, then the one-character rules. \<^verbatim>\<open>t_ignore_newline\<close> counts the line feeds and
  returns no token. Where no rule matches, \<^verbatim>\<open>t_error\<close> prints the character (left out
  here) and skips it.
\<close>

function lex_tokens :: "string \<Rightarrow> int \<Rightarrow> nat \<Rightarrow> lextoken list" where
  "lex_tokens [] lineno lexpos = []"
| "lex_tokens (c # cs) lineno lexpos =
     (if c \<in> set t_ignore then lex_tokens cs lineno (lexpos + 1)
      else if is_digit c then
        t_NUMBER (c # takeWhile is_digit cs) lineno lexpos #
        lex_tokens (dropWhile is_digit cs) lineno (lexpos + 1 + length (takeWhile is_digit cs))
      else if is_id_start c then
        t_ID (c # takeWhile is_id_char cs) lineno lexpos #
        lex_tokens (dropWhile is_id_char cs) lineno
          (lexpos + 1 + length (takeWhile is_id_char cs))
      else if c = CHR 0x0A then
        lex_tokens (dropWhile (\<lambda>x. x = CHR 0x0A) cs)
          (lineno + 1 + int (length (takeWhile (\<lambda>x. x = CHR 0x0A) cs)))
          (lexpos + 1 + length (takeWhile (\<lambda>x. x = CHR 0x0A) cs))
      else
        (case map_of simple_tokens c of
           Some ty \<Rightarrow> LexToken ty (PStr [c]) lineno lexpos # lex_tokens cs lineno (lexpos + 1)
         | None \<Rightarrow> lex_tokens cs lineno (lexpos + 1)))"
  by pat_completeness auto
termination
  by (relation "measure (\<lambda>(s, lineno, lexpos). length s)")
     (auto simp: less_Suc_eq_le length_dropWhile_le)

definition lexer_tokens :: "string \<Rightarrow> lextoken list" where
  \<comment> \<open>all tokens of an input: the lexer starts at line 1, position 0\<close>
  "lexer_tokens text = lex_tokens text 1 0"

section \<open>The parser (\<^verbatim>\<open>compiler/compiler.py\<close>)\<close>

definition new_node :: "string \<Rightarrow> pyval list \<Rightarrow> pyval" where
  "new_node name children = PNode name children"

definition new_leaf :: "string \<Rightarrow> pyval list \<Rightarrow> pyval" where
  "new_leaf name value = PLeaf name value"

text \<open>
  A grammar action receives the production object \<^verbatim>\<open>p\<close> and stores its result in
  \<^verbatim>\<open>p[0]\<close>. Here \<open>p\<close> is the list of its slots: \<open>p ! 0\<close> is the result slot
  (\<^verbatim>\<open>None\<close> before the action runs), \<open>p ! 1\<close>, \<open>p ! 2\<close>, ... are the values of the symbols
  of the right-hand side, and \<open>length p\<close> is \<^verbatim>\<open>len(p)\<close>. An action is a Python function,
  so it runs in the program's global state, of which the symbol table is the part
  modelled: it takes the state and returns the value it leaves in \<^verbatim>\<open>p[0]\<close> together
  with the state. No action of the module mentions the symbol table (the module does not
  import it), so each returns the state as it is.

  \<^verbatim>\<open>p[0].extend(p[2])\<close> runs over \<^verbatim>\<open>p[2]\<close>, the value of the nonterminal after the
  first symbol: a list whenever it is not \<^verbatim>\<open>None\<close>.
\<close>

definition list_extend :: "pyval list \<Rightarrow> pyval \<Rightarrow> pyval list" where
  "list_extend xs v = (case py_iter v of Inr ys \<Rightarrow> xs @ ys | Inl e \<Rightarrow> xs)"

type_synonym action = "pyval list \<Rightarrow> symstate \<Rightarrow> pyval \<times> symstate"

definition p_program :: action where
  "p_program p st = (new_node ''Program'' [p ! 1], st)"

definition p_statements :: action where
  "p_statements p st =
     (if length p > 2 then
        (if p ! 2 = PNone then PList [p ! 1] else PList (list_extend [p ! 1] (p ! 2)))
      else PNone, st)"

definition p_statement :: action where
  "p_statement p st = (new_leaf ''Statement'' [p ! 1], st)"

definition p_call_func :: action where
  "p_call_func p st = (new_leaf ''Call function'' [p ! 1, p ! 2], st)"

definition p_declare_func :: action where
  "p_declare_func p st = (new_leaf ''Declare function'' [p ! 1, p ! 2, p ! 3, p ! 4], st)"

definition p_number :: action where
  "p_number p st = (PTuple [PStr ''number'', p ! 1], st)"

definition p_id :: action where
  "p_id p st = (PTuple [PStr ''Identifier'', p ! 1], st)"

definition p_func_params :: action where
  "p_func_params p st =
     (if length p > 2 then
        (if p ! 2 = PNone then PList [p ! 1] else PList (list_extend [p ! 1] (p ! 2)))
      else PNone, st)"

definition p_func_param :: action where
  "p_func_param p st =
     (if length p > 2 then PTuple [PStr ''Parameter'', p ! 2]
      else PTuple [PStr ''Parameter'', p ! 1], st)"

definition p_if :: action where
  "p_if p st = (new_leaf ''IF'' [p ! 2, p ! 4], st)"

definition p_if_else :: action where
  "p_if_else p st = (new_leaf ''IF ELSE'' [p ! 2, p ! 4, p ! 6], st)"

definition p_while :: action where
  "p_while p st = (new_leaf ''WHILE'' [p ! 2, p ! 3], st)"

definition p_factor_unary :: action where
  "p_factor_unary p st = (new_leaf ''MATH EXPRESSION'' [p ! 1, p ! 2], st)"

definition p_factor_grouped :: action where
  "p_factor_grouped p st = (new_leaf ''MATH EXPRESSION'' [p ! 2], st)"

definition p_expression :: action where
  "p_expression p st = (new_leaf ''MATH EXPRESSION'' [p ! 2, p ! 1, p ! 3], st)"

definition p_expression_term :: action where
  "p_expression_term p st = (p ! 1, st)"

definition p_term :: action where
  "p_term p st = (new_leaf ''MATH EXPRESSION'' [p ! 2, p ! 1, p ! 3], st)"

definition p_term_factor :: action where
  "p_term_factor p st = (p ! 1, st)"

definition p_factor_number :: action where
  "p_factor_number p st = (new_leaf ''Number'' [p ! 1], st)"

text \<open>
  The grammar as the docstrings of the \<^verbatim>\<open>p_\<close> functions give it, in the order of the
  file: each production with the function that is its action. \<open>T\<close> is a token type,
  \<open>N\<close> a nonterminal.
\<close>

datatype gsymbol = T string | N string

definition grammar :: "(string \<times> gsymbol list \<times> action) list" where
  "grammar =
     [(''program'', [N ''statements''], p_program),
      (''statements'', [N ''statement'', N ''statements''], p_statements),
      (''statements'', [], p_statements),
      (''statement'', [N ''declare_func''], p_statement),
      (''statement'', [N ''call_func''], p_statement),
      (''statement'', [N ''if''], p_statement),
      (''statement'', [N ''if_else''], p_statement),
      (''statement'', [N ''while''], p_statement),
      (''statement'', [N ''expression''], p_statement),
      (''call_func'', [T ''ID'', N ''func_params''], p_call_func),
      (''declare_func'',
         [T ''TO'', T ''ID'', N ''func_params'', N ''statements'', T ''END''], p_declare_func),
      (''number'', [T ''NUMBER''], p_number),
      (''id'', [T ''ID''], p_id),
      (''func_params'', [], p_func_params),
      (''func_params'', [N ''func_param'', N ''func_params''], p_func_params),
      (''func_param'', [T ''COLON'', N ''id''], p_func_param),
      (''func_param'', [N ''number''], p_func_param),
      (''if'', [T ''IF'', T ''ID'', T ''THEN'', N ''statements'', T ''END''], p_if),
      (''if_else'',
         [T ''IF'', T ''ID'', T ''THEN'', N ''statements'', T ''ELSE'', N ''statements'',
          T ''END''], p_if_else),
      (''while'', [T ''WHILE'', T ''ID'', N ''statements'', T ''END''], p_while),
      (''factor'', [T ''PLUS'', N ''factor''], p_factor_unary),
      (''factor'', [T ''MINUS'', N ''factor''], p_factor_unary),
      (''factor'', [T ''LPAREN'', N ''expression'', T ''RPAREN''], p_factor_grouped),
      (''expression'', [N ''term'', T ''PLUS'', N ''term''], p_expression),
      (''expression'', [N ''term'', T ''MINUS'', N ''term''], p_expression),
      (''expression'', [N ''term''], p_expression_term),
      (''term'', [N ''factor'', T ''TIMES'', N ''factor''], p_term),
      (''term'', [N ''factor'', T ''DIVIDE'', N ''factor''], p_term),
      (''term'', [N ''factor''], p_term_factor),
      (''factor'', [T ''NUMBER''], p_factor_number)]"

text \<open>
  \<^verbatim>\<open>yacc()\<close> builds an LALR(1) parser from this grammar. Whatever its tables are, a
  parse that succeeds is a derivation of the start symbol from the whole token list, and
  the actions run in the order of the reductions: for each production the actions of
  the symbols of its right-hand side first, from left to right, then its own.
  \<open>derives x ts st v ts' st'\<close>: the symbol \<open>x\<close> derives the tokens of \<open>ts\<close> before
  \<open>ts'\<close>, with value \<open>v\<close>, the actions taking the state from \<open>st\<close> to \<open>st'\<close>;
  \<open>derives_seq\<close> is the same for a right-hand side and the list of its values. The value
  of a token is its \<^verbatim>\<open>value\<close> attribute. Which derivation the tables select where the
  grammar is ambiguous, and what the parser does after a syntax error, is outside this
  model.
\<close>

inductive derives ::
    "gsymbol \<Rightarrow> lextoken list \<Rightarrow> symstate \<Rightarrow> pyval \<Rightarrow> lextoken list \<Rightarrow> symstate \<Rightarrow> bool"
  and derives_seq ::
    "gsymbol list \<Rightarrow> lextoken list \<Rightarrow> symstate \<Rightarrow> pyval list \<Rightarrow> lextoken list \<Rightarrow> symstate \<Rightarrow> bool"
where
  terminal: "derives (T ty) (LexToken ty v lineno lexpos # ts) st v ts st"
| reduce: "(lhs, rhs, act) \<in> set grammar \<Longrightarrow> derives_seq rhs ts st vs ts' st' \<Longrightarrow>
     act (PNone # vs) st' = (v, st'') \<Longrightarrow> derives (N lhs) ts st v ts' st''"
| seq_nil: "derives_seq [] ts st [] ts st"
| seq_cons: "derives x ts st v ts1 st1 \<Longrightarrow> derives_seq xs ts1 st1 vs ts2 st2 \<Longrightarrow>
     derives_seq (x # xs) ts st (v # vs) ts2 st2"

definition parser_parse :: "lextoken list \<Rightarrow> symstate \<Rightarrow> pyval \<Rightarrow> symstate \<Rightarrow> bool" where
  \<comment> \<open>\<^verbatim>\<open>parser.parse\<close>: a derivation of the start symbol from all the tokens\<close>
  "parser_parse ts st v st' \<longleftrightarrow> derives (N ''program'') ts st v [] st'"

text \<open>
  Which trees hold a procedure declaration, a conditional or a loop: a leaf that one of
  the actions \<^verbatim>\<open>p_declare_func\<close>, \<^verbatim>\<open>p_if\<close>, \<^verbatim>\<open>p_if_else\<close> and \<^verbatim>\<open>p_while\<close> builds,
  at any depth. A token list is plain when it holds no token of type \<^verbatim>\<open>TO\<close>, \<^verbatim>\<open>IF\<close>
  or \<^verbatim>\<open>WHILE\<close> and no token whose value is such a tree.
\<close>

fun keyword_leaf :: "pyval \<Rightarrow> bool" where
  "keyword_leaf (PLeaf name vs) =
     (name \<in> {''Declare function'', ''IF'', ''IF ELSE'', ''WHILE''} \<or> (\<exists>v \<in> set vs. keyword_leaf v))"
| "keyword_leaf (PNode name vs) = (\<exists>v \<in> set vs. keyword_leaf v)"
| "keyword_leaf (PList vs) = (\<exists>v \<in> set vs. keyword_leaf v)"
| "keyword_leaf (PTuple vs) = (\<exists>v \<in> set vs. keyword_leaf v)"
| "keyword_leaf v = False"

definition plain_tokens :: "lextoken list \<Rightarrow> bool" where
  "plain_tokens ts \<longleftrightarrow>
     (\<forall>t \<in> set ts. tok_type t \<notin> {''TO'', ''IF'', ''WHILE''} \<and> \<not> keyword_leaf (tok_value t))"

section \<open>Runs of the public operations\<close>

text \<open>
  The operations of the module that write its globals, as values, with the loader, which
  writes through \<^verbatim>\<open>set_symbol\<close>, and the assignment to the flag
  \<^verbatim>\<open>case_insensitive_symtable\<close>. \<^verbatim>\<open>get_symbol\<close> and \<^verbatim>\<open>get_symbols_by_class\<close> write
  nothing. A state is reachable when a sequence of operations that return builds it
  from the state at import. An operation that raises has written nothing, the loader
  apart: its writes before the exception are \<^verbatim>\<open>set_symbol\<close> calls that returned, so
  the state it leaves is reachable by those calls.
\<close>

datatype operation =
    Add_symbol string pyval pydict
  | Set_symbol string pydict
  | Remove_symbol string
  | Increment_symbol_usage string pyval int
  | Loader
  | Set_case_insensitive bool

fun exec :: "operation \<Rightarrow> symstate \<Rightarrow> error + symstate" where
  "exec (Add_symbol symbol sym_type kwargs) st = add_symbol symbol sym_type kwargs st"
| "exec (Set_symbol symbol kwargs) st = set_symbol symbol kwargs st"
| "exec (Remove_symbol symbol) st = remove_symbol symbol st"
| "exec (Increment_symbol_usage symbol lineno amount) st =
     increment_symbol_usage symbol lineno amount st"
| "exec Loader st = loader st"
| "exec (Set_case_insensitive b) st = Inr (st\<lparr>case_insensitive_symtable := b\<rparr>)"

inductive reachable :: "symstate \<Rightarrow> bool" where
  reachable_initial: "reachable initial_state"
| reachable_step: "reachable st \<Longrightarrow> exec operation st = Inr st' \<Longrightarrow> reachable st'"

text \<open>The invariant of the table: every entry carries its key as its \<^verbatim>\<open>name\<close>.\<close>

definition names_are_keys :: "(string \<times> pydict) list \<Rightarrow> bool" where
  "names_are_keys tab \<longleftrightarrow> (\<forall>(k, e) \<in> set tab. map_of e ''name'' = Some (PStr k))"

text \<open>
  Every entry carries a \<^verbatim>\<open>type\<close>: the condition under which the look-up
  \<^verbatim>\<open>v['type']\<close> of \<^verbatim>\<open>get_symbols_by_class\<close> raises for no entry. And the relation of
  a table to a later one in which every entry of the first is still there with the
  \<^verbatim>\<open>type\<close> it had.
\<close>

definition entries_have_type :: "(string \<times> pydict) list \<Rightarrow> bool" where
  "entries_have_type tab \<longleftrightarrow> (\<forall>(k, e) \<in> set tab. map_of e ''type'' \<noteq> None)"

definition keeps_types :: "(string \<times> pydict) list \<Rightarrow> (string \<times> pydict) list \<Rightarrow> bool" where
  "keeps_types tab tab' \<longleftrightarrow>
     (\<forall>k e0. map_of tab k = Some e0 \<longrightarrow>
        (\<exists>e1. map_of tab' k = Some e1 \<and> map_of e1 ''type'' = map_of e0 ''type''))"


section \<open>Example tables\<close>

definition table_with_a :: symstate where
  "table_with_a = \<lparr>symtable = [(''a'', [(''name'', PStr ''a''), (''type'', PStr ''VAR'')])],
                    case_insensitive_symtable = False\<rparr>"

definition table_with_a_ci :: symstate where
  "table_with_a_ci = \<lparr>symtable = [(''a'', [(''name'', PStr ''a''), (''type'', PStr ''VAR'')])],
                       case_insensitive_symtable = True\<rparr>"

definition table_with_f :: symstate where
  "table_with_f = \<lparr>symtable = [(''f'', [(''name'', PStr ''f''), (''type'', PStr ''FUNC'')])],
                    case_insensitive_symtable = False\<rparr>"

definition table_with_f_pc :: symstate where
  "table_with_f_pc =
     \<lparr>symtable = [(''f'', [(''name'', PStr ''f''), (''type'', PStr ''FUNC''), (''pc'', PInt 3)])],
      case_insensitive_symtable = False\<rparr>"


definition main_entry :: pydict where
  "main_entry = [(''name'', PStr ''main''), (''type'', PStr ''FUNC''),
                 (''code'', PList [PStr ''LABEL L1'', PStr ''PUSH 1'', PStr ''LABEL L2''])]"

definition table_with_labels :: symstate where
  "table_with_labels =
     \<lparr>symtable = [(''main'', main_entry),
                  (''L1'', [(''name'', PStr ''L1''), (''type'', PStr ''LABEL'')]),
                  (''L2'', [(''name'', PStr ''L2''), (''type'', PStr ''LABEL'')])],
      case_insensitive_symtable = False\<rparr>"

definition helper_entry :: pydict where
  "helper_entry = [(''name'', PStr ''h''), (''type'', PStr ''FUNC''),
                   (''code'', PList [PStr ''PUSH 1''])]"

definition table_without_code :: symstate where
  "table_without_code =
     \<lparr>symtable = [(''h'', helper_entry),
                  (''g'', [(''name'', PStr ''g''), (''type'', PStr ''FUNC'')])],
      case_insensitive_symtable = False\<rparr>"

definition table_with_labels_and_helper :: symstate where
  "table_with_labels_and_helper =
     \<lparr>symtable = [(''main'', main_entry),
                  (''L1'', [(''name'', PStr ''L1''), (''type'', PStr ''LABEL'')]),
                  (''L2'', [(''name'', PStr ''L2''), (''type'', PStr ''LABEL'')]),
                  (''h'', helper_entry)],
      case_insensitive_symtable = False\<rparr>"

definition late_entry :: pydict where
  "late_entry = [(''name'', PStr ''late''), (''type'', PStr ''FUNC''),
                 (''code'', PList [PStr ''LABEL L2''])]"

definition table_with_late_label :: symstate where
  "table_with_late_label =
     \<lparr>symtable = [(''main'', main_entry),
                  (''L1'', [(''name'', PStr ''L1''), (''type'', PStr ''LABEL'')]),
                  (''L2'', [(''name'', PStr ''L2''), (''type'', PStr ''LABEL'')]),
                  (''late'', late_entry)],
      case_insensitive_symtable = False\<rparr>"

definition table_with_two_missing :: symstate where
  "table_with_two_missing =
     \<lparr>symtable = [(''g1'', [(''name'', PStr ''g1''), (''type'', PStr ''FUNC'')]),
                  (''g2'', [(''name'', PStr ''g2''), (''type'', PStr ''FUNC'')])],
      case_insensitive_symtable = False\<rparr>"

definition resolved_labels :: "int \<Rightarrow> int \<Rightarrow> (string \<times> pydict) list" where
  "resolved_labels pc1 pc2 =
     [(''L1'', [(''name'', PStr ''L1''), (''type'', PStr ''LABEL''), (''pc'', PInt pc1)]),
      (''L2'', [(''name'', PStr ''L2''), (''type'', PStr ''LABEL''), (''pc'', PInt pc2)])]"

definition broken_entry :: pydict where
  "broken_entry = [(''name'', PStr ''b''), (''type'', PStr ''FUNC''),
                   (''code'', PList [PStr ''PUSH 1'', PStr ''LABEL''])]"

definition table_with_bare_label :: symstate where
  "table_with_bare_label =
     \<lparr>symtable = [(''h'', helper_entry), (''b'', broken_entry)],
      case_insensitive_symtable = False\<rparr>"


text \<open>
  The source text of the parsing example, the tokens the lexer makes of it, a tree
  the grammar derives from them, and a declaration given to the parser as tokens.
\<close>

definition example_source :: string where
  "example_source =
     ''to v1 :length end'' @ [CHR 0x0A] @ ''v1 80'' @ [CHR 0x0A] @
     ''if x then v1 80 end'' @ [CHR 0x0A] @ ''3 + 2''"

definition example_tokens :: "lextoken list" where
  "example_tokens =
     [LexToken ''ID'' (PStr ''to'') 1 0, LexToken ''ID'' (PStr ''v1'') 1 3,
      LexToken ''COLON'' (PStr '':'') 1 6, LexToken ''ID'' (PStr ''length'') 1 7,
      LexToken ''ID'' (PStr ''end'') 1 14, LexToken ''ID'' (PStr ''v1'') 2 18,
      LexToken ''NUMBER'' (PInt 80) 2 21, LexToken ''ID'' (PStr ''if'') 3 24,
      LexToken ''ID'' (PStr ''x'') 3 27, LexToken ''ID'' (PStr ''then'') 3 29,
      LexToken ''ID'' (PStr ''v1'') 3 34, LexToken ''NUMBER'' (PInt 80) 3 37,
      LexToken ''ID'' (PStr ''end'') 3 40, LexToken ''NUMBER'' (PInt 3) 4 44,
      LexToken ''PLUS'' (PStr ''+'') 4 46, LexToken ''NUMBER'' (PInt 2) 4 48]"

definition declaration_tokens :: "lextoken list" where
  "declaration_tokens =
     [LexToken ''TO'' (PStr ''to'') 1 0, LexToken ''ID'' (PStr ''v1'') 1 3,
      LexToken ''END'' (PStr ''end'') 1 6]"

definition declaration_tree :: pyval where
  "declaration_tree =
     PNode ''Program''
       [PList [PLeaf ''Statement''
                 [PLeaf ''Declare function'' [PStr ''to'', PStr ''v1'', PNone, PNone]]]]"

definition declaration_with_body_tokens :: "lextoken list" where
  "declaration_with_body_tokens =
     [LexToken ''TO'' (PStr ''to'') 1 0, LexToken ''ID'' (PStr ''v1'') 1 3,
      LexToken ''COLON'' (PStr '':'') 1 6, LexToken ''ID'' (PStr ''length'') 1 7,
      LexToken ''ID'' (PStr ''v1'') 1 14, LexToken ''NUMBER'' (PInt 80) 1 17,
      LexToken ''END'' (PStr ''end'') 1 20]"

definition declaration_with_body_leaf :: pyval where
  "declaration_with_body_leaf =
     PLeaf ''Declare function''
       [PStr ''to'', PStr ''v1'',
        PList [PTuple [PStr ''Parameter'', PTuple [PStr ''Identifier'', PStr ''length'']]],
        PList [PLeaf ''Statement''
                 [PLeaf ''Call function''
                    [PStr ''v1'',
                     PList [PTuple [PStr ''Parameter'', PTuple [PStr ''number'', PInt 80]]]]]]]"

definition example_tree :: pyval where
  "example_tree =
     PNode ''Program''
       [PList
          [PLeaf ''Statement'' [PLeaf ''Call function'' [PStr ''to'', PNone]],
           PLeaf ''Statement''
             [PLeaf ''Call function''
                [PStr ''v1'',
                 PList [PTuple [PStr ''Parameter'', PTuple [PStr ''Identifier'', PStr ''length'']]]]],
           PLeaf ''Statement'' [PLeaf ''Call function'' [PStr ''end'', PNone]],
           PLeaf ''Statement''
             [PLeaf ''Call function''
                [PStr ''v1'', PList [PTuple [PStr ''Parameter'', PTuple [PStr ''number'', PInt 80]]]]],
           PLeaf ''Statement'' [PLeaf ''Call function'' [PStr ''if'', PNone]],
           PLeaf ''Statement'' [PLeaf ''Call function'' [PStr ''x'', PNone]],
           PLeaf ''Statement'' [PLeaf ''Call function'' [PStr ''then'', PNone]],
           PLeaf ''Statement''
             [PLeaf ''Call function''
                [PStr ''v1'', PList [PTuple [PStr ''Parameter'', PTuple [PStr ''number'', PInt 80]]]]],
           PLeaf ''Statement''
             [PLeaf ''Call function''
                [PStr ''end'', PList [PTuple [PStr ''Parameter'', PTuple [PStr ''number'', PInt 3]]]]],
           PLeaf ''Statement''
             [PLeaf ''MATH EXPRESSION'' [PStr ''+'', PLeaf ''Number'' [PInt 2]]]]]"

section \<open>Properties of the symbol table\<close>

lemma map_of_dict_update_other:
  "key \<notin> fst ` set kwargs \<Longrightarrow> map_of (dict_update d kwargs) key = map_of d key"
  unfolding dict_update_def
  by (induction kwargs arbitrary: d) (auto simp: update_conv')

lemma map_of_dict_update_single [simp]:
  "map_of (dict_update d [(k, v)]) k' = (if k' = k then Some v else map_of d k')"
  by (simp add: dict_update_def update_conv')

lemma set_update_cases:
  "(k, e) \<in> set (AList.update key v tab) \<Longrightarrow> (k, e) \<in> set tab \<or> (k = key \<and> e = v)"
  by (induction tab) (auto split: if_splits)

lemma names_are_keys_update:
  "names_are_keys tab \<Longrightarrow> map_of v ''name'' = Some (PStr key) \<Longrightarrow>
   names_are_keys (AList.update key v tab)"
  unfolding names_are_keys_def by (auto dest: set_update_cases)

lemma names_are_keys_delete:
  "names_are_keys tab \<Longrightarrow> names_are_keys (AList.delete key tab)"
  unfolding names_are_keys_def by (auto simp: AList.delete_eq)

lemma names_are_keys_lookup:
  "names_are_keys tab \<Longrightarrow> map_of tab k = Some e \<Longrightarrow> map_of e ''name'' = Some (PStr k)"
  unfolding names_are_keys_def by (auto dest: map_of_SomeD)

lemma set_symbol_result:
  assumes "set_symbol symbol kwargs st = Inr st'"
  shows "\<exists>obj. map_of (symtable st) (fst (tr_symbol st symbol)) = Some obj \<and>
          ''name'' \<notin> fst ` set kwargs \<and>
          st' = st\<lparr>symtable := AList.update (fst (tr_symbol st symbol))
                                  (dict_update obj kwargs) (symtable st)\<rparr>"
  using assms
  by (auto simp: set_symbol_def tr_symbol_def InternalError_def
           split: option.splits if_splits sum.splits bool.splits)

lemma add_symbol_result:
  assumes "add_symbol symbol sym_type kwargs st = Inr st'"
  shows "(map_of (symtable st) (fst (tr_symbol st symbol)) = None \<or>
          map_of (symtable st) (fst (tr_symbol st symbol)) = Some []) \<and>
         st' = new_entry (fst (tr_symbol st symbol)) sym_type kwargs st"
  using assms
  by (auto simp: add_symbol_def tr_symbol_def str_get_def
           split: option.splits if_splits)

lemma remove_symbol_result:
  assumes "remove_symbol symbol st = Inr st'"
  shows "st' = st\<lparr>symtable := AList.delete (fst (tr_symbol st symbol)) (symtable st)\<rparr>"
  using assms
  by (auto simp: remove_symbol_def tr_symbol_def split: if_splits)

lemma set_symbol_names:
  "set_symbol symbol kwargs st = Inr st' \<Longrightarrow> names_are_keys (symtable st) \<Longrightarrow>
   names_are_keys (symtable st')"
  by (drule set_symbol_result)
     (auto intro!: names_are_keys_update
           simp: map_of_dict_update_other names_are_keys_lookup)

lemma add_symbol_names:
  "add_symbol symbol sym_type kwargs st = Inr st' \<Longrightarrow> names_are_keys (symtable st) \<Longrightarrow>
   names_are_keys (symtable st')"
  by (drule add_symbol_result)
     (auto intro!: names_are_keys_update simp: new_entry_def update_conv')

lemma remove_symbol_names:
  "remove_symbol symbol st = Inr st' \<Longrightarrow> names_are_keys (symtable st) \<Longrightarrow>
   names_are_keys (symtable st')"
  by (drule remove_symbol_result) (auto intro: names_are_keys_delete)

lemma increment_symbol_usage_names:
  "increment_symbol_usage symbol lineno amount st = Inr st' \<Longrightarrow>
   names_are_keys (symtable st) \<Longrightarrow> names_are_keys (symtable st')"
  by (auto simp: increment_symbol_usage_def split: option.splits sum.splits
           dest: set_symbol_names)

lemma load_cmd_names:
  "load_cmd addr cmd st = Inr st' \<Longrightarrow> names_are_keys (symtable st) \<Longrightarrow>
   names_are_keys (symtable st')"
  by (auto simp: load_cmd_def split: pyval.splits if_splits list.splits
           dest: set_symbol_names)

lemma load_code_names:
  "load_code cmds st = Inr st' \<Longrightarrow> names_are_keys (symtable st) \<Longrightarrow>
   names_are_keys (symtable st')"
  by (induction cmds st rule: load_code.induct)
     (auto split: sum.splits dest: load_cmd_names)

lemma load_func_names:
  "load_func symbol data st = Inr st' \<Longrightarrow> names_are_keys (symtable st) \<Longrightarrow>
   names_are_keys (symtable st')"
  by (auto simp: load_func_def Let_def split: if_splits sum.splits dest: load_code_names)

lemma load_funcs_names:
  "load_funcs funcs st = Inr st' \<Longrightarrow> names_are_keys (symtable st) \<Longrightarrow>
   names_are_keys (symtable st')"
  by (induction funcs st rule: load_funcs.induct)
     (auto split: sum.splits dest: load_func_names)

lemma loader_names:
  "loader st = Inr st' \<Longrightarrow> names_are_keys (symtable st) \<Longrightarrow> names_are_keys (symtable st')"
  by (auto simp: loader_def split: sum.splits dest: load_funcs_names)

lemma exec_names:
  "exec operation st = Inr st' \<Longrightarrow> names_are_keys (symtable st) \<Longrightarrow>
   names_are_keys (symtable st')"
  by (cases operation)
     (auto dest: add_symbol_names set_symbol_names remove_symbol_names
                 increment_symbol_usage_names loader_names)

lemma reachable_names: "reachable st \<Longrightarrow> names_are_keys (symtable st)"
proof (induction rule: reachable.induct)
  case reachable_initial
  show ?case by (simp add: initial_state_def names_are_keys_def)
next
  case (reachable_step st operation st')
  then show ?case by (blast dest: exec_names)
qed

text \<open>
  The loader writes through \<^verbatim>\<open>set_symbol\<close> with the one attribute \<^verbatim>\<open>pc\<close>: a property
  of the state that every such write keeps is kept by the loader.
\<close>

lemma load_cmd_preserves:
  assumes "\<forall>name v s s'. set_symbol name [(''pc'', v)] s = Inr s' \<longrightarrow> P s \<longrightarrow> P s'"
      and "load_cmd addr cmd st = Inr st'" and "P st"
  shows "P st'"
  using assms
  by (auto simp: load_cmd_def split: pyval.splits if_splits list.splits)

lemma load_code_preserves:
  assumes step: "\<forall>name v s s'. set_symbol name [(''pc'', v)] s = Inr s' \<longrightarrow> P s \<longrightarrow> P s'"
  shows "load_code cmds st = Inr st' \<Longrightarrow> P st \<Longrightarrow> P st'"
proof (induction cmds arbitrary: st)
  case Nil
  then show ?case by simp
next
  case (Cons x cmds)
  obtain addr cmd where x: "x = (addr, cmd)" by (cases x)
  from Cons.prems(1) obtain s where a: "load_cmd addr cmd st = Inr s"
      and b: "load_code cmds s = Inr st'"
    by (auto simp: x split: sum.splits)
  have "P s"
    using load_cmd_preserves [of P addr cmd st s] step a Cons.prems(2) by blast
  with b show ?case by (rule Cons.IH)
qed

lemma load_func_preserves:
  assumes step: "\<forall>name v s s'. set_symbol name [(''pc'', v)] s = Inr s' \<longrightarrow> P s \<longrightarrow> P s'"
    and "load_func f data st = Inr st'" and "P st"
  shows "P st'"
proof -
  from assms(2) obtain cmds where "load_code (zip [0..<length cmds] cmds) st = Inr st'"
    by (auto simp: load_func_def Let_def split: if_splits sum.splits)
  then show ?thesis
    using load_code_preserves [of P "zip [0..<length cmds] cmds" st st'] step assms(3)
    by blast
qed

lemma load_funcs_preserves:
  assumes step: "\<forall>name v s s'. set_symbol name [(''pc'', v)] s = Inr s' \<longrightarrow> P s \<longrightarrow> P s'"
  shows "load_funcs funcs st = Inr st' \<Longrightarrow> P st \<Longrightarrow> P st'"
proof (induction funcs arbitrary: st)
  case Nil
  then show ?case by simp
next
  case (Cons x funcs)
  obtain f data where x: "x = (f, data)" by (cases x)
  from Cons.prems(1) obtain s where a: "load_func f data st = Inr s"
      and b: "load_funcs funcs s = Inr st'"
    by (auto simp: x split: sum.splits)
  have "P s"
    using load_func_preserves [of P f data st s] step a Cons.prems(2) by blast
  with b show ?case by (rule Cons.IH)
qed

lemma loader_preserves:
  assumes step: "\<forall>name v s s'. set_symbol name [(''pc'', v)] s = Inr s' \<longrightarrow> P s \<longrightarrow> P s'"
    and "loader st = Inr st'" and "P st"
  shows "P st'"
proof -
  from assms(2) obtain funcs where "load_funcs funcs st = Inr st'"
    by (auto simp: loader_def split: sum.splits)
  then show ?thesis
    using load_funcs_preserves [of P funcs st st'] step assms(3) by blast
qed

lemma dict_update_keeps_key:
  "map_of d key \<noteq> None \<Longrightarrow> map_of (dict_update d kwargs) key \<noteq> None"
  unfolding dict_update_def
  by (induction kwargs arbitrary: d) (auto simp: update_conv')

lemma entries_have_type_update:
  "entries_have_type tab \<Longrightarrow> map_of v ''type'' \<noteq> None \<Longrightarrow>
   entries_have_type (AList.update key v tab)"
  unfolding entries_have_type_def by (auto dest: set_update_cases)

lemma entries_have_type_delete:
  "entries_have_type tab \<Longrightarrow> entries_have_type (AList.delete key tab)"
  unfolding entries_have_type_def by (auto simp: AList.delete_eq)

lemma entries_have_type_lookup:
  "entries_have_type tab \<Longrightarrow> map_of tab k = Some e \<Longrightarrow> map_of e ''type'' \<noteq> None"
  unfolding entries_have_type_def by (auto dest: map_of_SomeD)

lemma set_symbol_types:
  "set_symbol symbol kwargs st = Inr st' \<Longrightarrow> entries_have_type (symtable st) \<Longrightarrow>
   entries_have_type (symtable st')"
  by (drule set_symbol_result)
     (auto intro!: entries_have_type_update dict_update_keeps_key
           dest: entries_have_type_lookup)

lemma exec_types:
  assumes "exec operation st = Inr st'" and "entries_have_type (symtable st)"
  shows "entries_have_type (symtable st')"
proof (cases operation)
  case (Add_symbol symbol sym_type kwargs)
  with assms(1) have "st' = new_entry (fst (tr_symbol st symbol)) sym_type kwargs st"
    by (auto dest: add_symbol_result)
  with assms(2) show ?thesis
    by (auto simp: new_entry_def update_conv' intro!: entries_have_type_update)
next
  case (Set_symbol symbol kwargs)
  with assms show ?thesis by (auto dest: set_symbol_types)
next
  case (Remove_symbol symbol)
  with assms show ?thesis
    by (auto dest!: remove_symbol_result intro: entries_have_type_delete)
next
  case (Increment_symbol_usage symbol lineno amount)
  with assms show ?thesis
    by (auto simp: increment_symbol_usage_def split: option.splits sum.splits
             dest: set_symbol_types)
next
  case Loader
  with assms(1) have "loader st = Inr st'" by simp
  then show ?thesis
    using loader_preserves [of "\<lambda>s. entries_have_type (symtable s)" st st']
          set_symbol_types assms(2)
    by blast
next
  case (Set_case_insensitive b)
  with assms show ?thesis by auto
qed

lemma reachable_types: "reachable st \<Longrightarrow> entries_have_type (symtable st)"
proof (induction rule: reachable.induct)
  case reachable_initial
  show ?case by (simp add: initial_state_def entries_have_type_def)
next
  case (reachable_step st operation st')
  then show ?case by (blast intro: exec_types)
qed

lemma by_class_filter:
  "entries_have_type tab \<Longrightarrow>
   by_class t tab = Inr (filter (\<lambda>(k, v). map_of v ''type'' = Some t) tab)"
  by (induction tab) (auto simp: entries_have_type_def split: option.splits)

lemma add_symbol_present:
  "map_of (symtable st) (fst (tr_symbol st symbol)) = Some obj \<Longrightarrow> obj \<noteq> [] \<Longrightarrow>
   add_symbol symbol sym_type kwargs st = Inl AttributeError"
  by (auto simp: add_symbol_def str_get_def tr_symbol_def)

lemma add_symbol_absent:
  "map_of (symtable st) (fst (tr_symbol st symbol)) = None \<Longrightarrow>
   add_symbol symbol sym_type kwargs st =
     Inr (new_entry (fst (tr_symbol st symbol)) sym_type kwargs st)"
  by (auto simp: add_symbol_def tr_symbol_def)

text \<open>
  Claim C1 says that \<^verbatim>\<open>add_symbol("p", FUNC, lineno=-1)\<close> followed by
  \<^verbatim>\<open>add_symbol("p", FUNC, lineno=5)\<close> succeeds and merges the new attributes into the
  forward-reference entry. The first call creates the entry; the second finds it, reads
  \<^verbatim>\<open>symbol.get("lineno")\<close> on the name instead of the entry and raises
  \<^verbatim>\<open>AttributeError\<close>. By \<open>add_symbol_present\<close> this is what happens for every name
  that is present with an entry that is not empty: no merge and no redefinition error.
\<close>

theorem add_symbol_forward_reference_raises:
  "add_symbol ''p'' (PStr ''FUNC'') [(''lineno'', PInt (- 1))] initial_state =
     Inr \<lparr>symtable = [(''p'', [(''lineno'', PInt (- 1)), (''name'', PStr ''p''),
                               (''type'', PStr ''FUNC'')])],
          case_insensitive_symtable = False\<rparr>
   \<and> add_symbol ''p'' (PStr ''FUNC'') [(''lineno'', PInt 5)]
       \<lparr>symtable = [(''p'', [(''lineno'', PInt (- 1)), (''name'', PStr ''p''),
                               (''type'', PStr ''FUNC'')])],
          case_insensitive_symtable = False\<rparr> = Inl AttributeError"
  by (simp add: add_symbol_def new_entry_def tr_symbol_def initial_state_def str_get_def)

lemma upper_Foo: "upper ''Foo'' = ''FOO''"
  by (simp add: upper_def upper_char_def)

lemma upper_FOO: "upper ''FOO'' = ''FOO''"
  by (simp add: upper_def upper_char_def)

lemma get_symbol_new_entry:
  "get_symbol s (new_entry key sym_type kwargs st) =
     (if fst (tr_symbol st s) = key
      then Some (AList.update ''type'' sym_type (AList.update ''name'' (PStr key) kwargs))
      else get_symbol s st)"
  by (simp add: get_symbol_def new_entry_def tr_symbol_def update_conv')

text \<open>
  Claim C6: with the case-insensitivity flag enabled, \<^verbatim>\<open>add_symbol("Foo", VAR)\<close>
  followed by \<^verbatim>\<open>get_symbol("FOO")\<close> returns the entry the add created (stored under
  the uppercase name, and found under either spelling); with the flag disabled the entry
  is stored under \<^verbatim>\<open>Foo\<close> and \<^verbatim>\<open>get_symbol("FOO")\<close> returns \<^verbatim>\<open>None\<close>. The table
  is any table that holds neither name yet.
\<close>

theorem case_insensitive_lookup:
  "(case_insensitive_symtable st \<and> get_symbol ''FOO'' st = None \<longrightarrow>
      (\<exists>st'. add_symbol ''Foo'' (PStr ''VAR'') [] st = Inr st' \<and>
             get_symbol ''FOO'' st' = Some [(''name'', PStr ''FOO''), (''type'', PStr ''VAR'')] \<and>
             get_symbol ''Foo'' st' = get_symbol ''FOO'' st'))
   \<and> (\<not> case_insensitive_symtable st \<and> get_symbol ''FOO'' st = None \<and>
        get_symbol ''Foo'' st = None \<longrightarrow>
      (\<exists>st'. add_symbol ''Foo'' (PStr ''VAR'') [] st = Inr st' \<and>
             get_symbol ''Foo'' st' = Some [(''name'', PStr ''Foo''), (''type'', PStr ''VAR'')] \<and>
             get_symbol ''FOO'' st' = None))"
proof (intro conjI impI)
  assume h: "case_insensitive_symtable st \<and> get_symbol ''FOO'' st = None"
  then have "map_of (symtable st) (fst (tr_symbol st ''Foo'')) = None"
    by (auto simp: get_symbol_def tr_symbol_def upper_Foo upper_FOO)
  then have "add_symbol ''Foo'' (PStr ''VAR'') [] st =
      Inr (new_entry (fst (tr_symbol st ''Foo'')) (PStr ''VAR'') [] st)"
    by (auto simp: add_symbol_def tr_symbol_def)
  moreover from h have "fst (tr_symbol st ''Foo'') = ''FOO''" "fst (tr_symbol st ''FOO'') = ''FOO''"
    by (simp_all add: tr_symbol_def upper_Foo upper_FOO)
  ultimately show "\<exists>st'. add_symbol ''Foo'' (PStr ''VAR'') [] st = Inr st' \<and>
             get_symbol ''FOO'' st' = Some [(''name'', PStr ''FOO''), (''type'', PStr ''VAR'')] \<and>
             get_symbol ''Foo'' st' = get_symbol ''FOO'' st'"
    by (simp add: get_symbol_new_entry)
next
  assume h: "\<not> case_insensitive_symtable st \<and> get_symbol ''FOO'' st = None \<and>
        get_symbol ''Foo'' st = None"
  then have "map_of (symtable st) (fst (tr_symbol st ''Foo'')) = None"
    by (auto simp: get_symbol_def)
  then have "add_symbol ''Foo'' (PStr ''VAR'') [] st =
      Inr (new_entry (fst (tr_symbol st ''Foo'')) (PStr ''VAR'') [] st)"
    by (auto simp: add_symbol_def tr_symbol_def)
  moreover from h have "fst (tr_symbol st ''Foo'') = ''Foo''" "fst (tr_symbol st ''FOO'') = ''FOO''"
    by (simp_all add: tr_symbol_def)
  ultimately show "\<exists>st'. add_symbol ''Foo'' (PStr ''VAR'') [] st = Inr st' \<and>
             get_symbol ''Foo'' st' = Some [(''name'', PStr ''Foo''), (''type'', PStr ''VAR'')] \<and>
             get_symbol ''FOO'' st' = None"
    using h by (simp add: get_symbol_new_entry)
qed

theorem case_insensitive_lookup_witness:
  "(\<exists>st'. add_symbol ''Foo'' (PStr ''VAR'') []
            (initial_state\<lparr>case_insensitive_symtable := True\<rparr>) = Inr st' \<and>
          get_symbol ''FOO'' st' = Some [(''name'', PStr ''FOO''), (''type'', PStr ''VAR'')] \<and>
          get_symbol ''Foo'' st' = get_symbol ''FOO'' st')
   \<and> (\<exists>st'. add_symbol ''Foo'' (PStr ''VAR'') [] initial_state = Inr st' \<and>
          get_symbol ''Foo'' st' = Some [(''name'', PStr ''Foo''), (''type'', PStr ''VAR'')] \<and>
          get_symbol ''FOO'' st' = None)"
  using case_insensitive_lookup [of "initial_state\<lparr>case_insensitive_symtable := True\<rparr>"]
        case_insensitive_lookup [of initial_state]
  by (simp add: initial_state_def get_symbol_def)

lemma by_class_lookup:
  "by_class t tab = Inr found \<Longrightarrow> map_of tab k = Some e \<Longrightarrow> map_of e ''type'' = Some t \<Longrightarrow>
   map_of found k = Some e"
  by (induction tab arbitrary: found) (auto split: option.splits sum.splits if_splits)

lemma add_symbol_normalized:
  assumes ci: "case_insensitive_symtable st"
      and new: "map_of (symtable st) (upper symbol) = None"
  shows "\<exists>st' e. add_symbol symbol sym_type kwargs st = Inr st' \<and>
           map_of (symtable st') (upper symbol) = Some e \<and>
           map_of e ''name'' = Some (PStr (upper symbol)) \<and>
           map_of e ''type'' = Some sym_type \<and>
           (\<forall>found. get_symbols_by_class sym_type st' = Inr found \<longrightarrow>
                    map_of found (upper symbol) = Some e) \<and>
           (entries_have_type (symtable st) \<longrightarrow>
              (\<exists>found. get_symbols_by_class sym_type st' = Inr found \<and>
                 found = filter (\<lambda>(k, v). map_of v ''type'' = Some sym_type) (symtable st') \<and>
                 map_of found (upper symbol) = Some e))"
proof -
  define e where "e = AList.update ''type'' sym_type
                        (AList.update ''name'' (PStr (upper symbol)) kwargs)"
  define st' where "st' = new_entry (upper symbol) sym_type kwargs st"
  from ci have key: "fst (tr_symbol st symbol) = upper symbol"
    by (simp add: tr_symbol_def)
  with new have add: "add_symbol symbol sym_type kwargs st = Inr st'"
    by (auto simp: add_symbol_def tr_symbol_def st'_def)
  have look: "map_of (symtable st') (upper symbol) = Some e"
    by (simp add: st'_def e_def new_entry_def update_conv')
  have attrs: "map_of e ''name'' = Some (PStr (upper symbol))" "map_of e ''type'' = Some sym_type"
    by (simp_all add: e_def update_conv')
  have any: "\<forall>found. get_symbols_by_class sym_type st' = Inr found \<longrightarrow>
                    map_of found (upper symbol) = Some e"
    using look attrs(2) by (auto simp: get_symbols_by_class_def dest: by_class_lookup)
  have "entries_have_type (symtable st) \<longrightarrow>
          get_symbols_by_class sym_type st' =
            Inr (filter (\<lambda>(k, v). map_of v ''type'' = Some sym_type) (symtable st'))"
  proof
    assume "entries_have_type (symtable st)"
    with add have "entries_have_type (symtable st')"
      using exec_types [of "Add_symbol symbol sym_type kwargs" st st'] by simp
    then show "get_symbols_by_class sym_type st' =
        Inr (filter (\<lambda>(k, v). map_of v ''type'' = Some sym_type) (symtable st'))"
      by (simp add: get_symbols_by_class_def by_class_filter)
  qed
  with add look attrs any show ?thesis by blast
qed

text \<open>
  Claim C9: in case-insensitive mode, when \<^verbatim>\<open>add_symbol\<close> creates a new entry, the
  entry is keyed under the uppercase spelling of the name, its \<^verbatim>\<open>name\<close> attribute is
  that uppercase spelling and its \<^verbatim>\<open>type\<close> the given type. When every entry of the
  table carries a \<^verbatim>\<open>type\<close>, as every entry of a reachable table does,
  \<^verbatim>\<open>get_symbols_by_class\<close> of that type then returns: its result is the entries of the
  table that have this type, in table order, and the new entry is among them under the
  uppercase key. In any table, a result of that call has the entry under that key.
\<close>

theorem add_symbol_stores_normalized_name:
  "(reachable st \<longrightarrow> entries_have_type (symtable st))
   \<and> (case_insensitive_symtable st \<and> map_of (symtable st) (upper symbol) = None \<longrightarrow>
       (\<exists>st' e. add_symbol symbol sym_type kwargs st = Inr st' \<and>
           map_of (symtable st') (upper symbol) = Some e \<and>
           map_of e ''name'' = Some (PStr (upper symbol)) \<and>
           map_of e ''type'' = Some sym_type \<and>
           (\<forall>found. get_symbols_by_class sym_type st' = Inr found \<longrightarrow>
                    map_of found (upper symbol) = Some e) \<and>
           (entries_have_type (symtable st) \<longrightarrow>
              (\<exists>found. get_symbols_by_class sym_type st' = Inr found \<and>
                 found = filter (\<lambda>(k, v). map_of v ''type'' = Some sym_type) (symtable st') \<and>
                 map_of found (upper symbol) = Some e))))"
  using reachable_types [of st] add_symbol_normalized [of st symbol sym_type kwargs]
  by blast

theorem add_symbol_stores_normalized_name_witness:
  "reachable initial_state
   \<and> entries_have_type (symtable table_with_a_ci)
   \<and> case_insensitive_symtable table_with_a_ci
   \<and> map_of (symtable table_with_a_ci) (upper ''Foo'') = None
   \<and> upper ''Foo'' = ''FOO''
   \<and> add_symbol ''Foo'' (PStr ''VAR'') [] table_with_a_ci =
       Inr \<lparr>symtable = [(''a'', [(''name'', PStr ''a''), (''type'', PStr ''VAR'')]),
                        (''FOO'', [(''name'', PStr ''FOO''), (''type'', PStr ''VAR'')])],
            case_insensitive_symtable = True\<rparr>
   \<and> get_symbols_by_class (PStr ''VAR'')
         \<lparr>symtable = [(''a'', [(''name'', PStr ''a''), (''type'', PStr ''VAR'')]),
                      (''FOO'', [(''name'', PStr ''FOO''), (''type'', PStr ''VAR'')])],
          case_insensitive_symtable = True\<rparr> =
       Inr [(''a'', [(''name'', PStr ''a''), (''type'', PStr ''VAR'')]),
            (''FOO'', [(''name'', PStr ''FOO''), (''type'', PStr ''VAR'')])]
   \<and> (\<exists>st' e found. add_symbol ''Foo'' (PStr ''VAR'') [] table_with_a_ci = Inr st' \<and>
           map_of (symtable st') ''FOO'' = Some e \<and>
           map_of e ''name'' = Some (PStr ''FOO'') \<and>
           map_of e ''type'' = Some (PStr ''VAR'') \<and>
           get_symbols_by_class (PStr ''VAR'') st' = Inr found \<and>
           map_of found ''FOO'' = Some e)"
proof -
  have t: "entries_have_type (symtable table_with_a_ci)"
    by (simp add: entries_have_type_def table_with_a_ci_def)
  have a: "add_symbol ''Foo'' (PStr ''VAR'') [] table_with_a_ci =
       Inr \<lparr>symtable = [(''a'', [(''name'', PStr ''a''), (''type'', PStr ''VAR'')]),
                        (''FOO'', [(''name'', PStr ''FOO''), (''type'', PStr ''VAR'')])],
            case_insensitive_symtable = True\<rparr>"
    by (simp add: add_symbol_def new_entry_def tr_symbol_def table_with_a_ci_def upper_Foo)
  have g: "get_symbols_by_class (PStr ''VAR'')
         \<lparr>symtable = [(''a'', [(''name'', PStr ''a''), (''type'', PStr ''VAR'')]),
                      (''FOO'', [(''name'', PStr ''FOO''), (''type'', PStr ''VAR'')])],
          case_insensitive_symtable = True\<rparr> =
       Inr [(''a'', [(''name'', PStr ''a''), (''type'', PStr ''VAR'')]),
            (''FOO'', [(''name'', PStr ''FOO''), (''type'', PStr ''VAR'')])]"
    by (simp add: get_symbols_by_class_def)
  have c: "case_insensitive_symtable table_with_a_ci"
          "map_of (symtable table_with_a_ci) (upper ''Foo'') = None"
    by (simp_all add: table_with_a_ci_def upper_Foo)
  show ?thesis
    using add_symbol_stores_normalized_name
            [of table_with_a_ci "''Foo''" "PStr ''VAR''" "[]"]
          add_symbol_stores_normalized_name [of initial_state]
          reachable_initial t a g c
    by (simp add: upper_Foo)
qed

text \<open>
  Claim C8: \<^verbatim>\<open>get_symbol\<close> returns the stored entry when the (translated) name is a key
  of the table and \<^verbatim>\<open>None\<close> when it is not, also after \<^verbatim>\<open>remove_symbol\<close> removed the
  name and in the table nothing was added to; it has no error result at all. On a name
  that \<^verbatim>\<open>get_symbol\<close> does not find, \<^verbatim>\<open>increment_symbol_usage\<close> raises.
\<close>

theorem get_symbol_total:
  "(fst (tr_symbol st symbol) \<in> fst ` set (symtable st) \<longrightarrow>
      (\<exists>e. get_symbol symbol st = Some e \<and> (fst (tr_symbol st symbol), e) \<in> set (symtable st)))
   \<and> (fst (tr_symbol st symbol) \<notin> fst ` set (symtable st) \<longrightarrow> get_symbol symbol st = None)
   \<and> (remove_symbol symbol st = Inr st' \<longrightarrow> get_symbol symbol st' = None)
   \<and> get_symbol symbol initial_state = None
   \<and> (get_symbol symbol st = None \<longrightarrow>
        increment_symbol_usage symbol lineno amount st = Inl (UnknownSymbol lineno symbol))"
proof (intro conjI impI)
  assume "fst (tr_symbol st symbol) \<in> fst ` set (symtable st)"
  then obtain e where "map_of (symtable st) (fst (tr_symbol st symbol)) = Some e"
    by (metis domD dom_map_of_conv_image_fst)
  then show "\<exists>e. get_symbol symbol st = Some e \<and>
                 (fst (tr_symbol st symbol), e) \<in> set (symtable st)"
    by (auto simp: get_symbol_def dest: map_of_SomeD)
next
  assume "fst (tr_symbol st symbol) \<notin> fst ` set (symtable st)"
  then show "get_symbol symbol st = None"
    by (simp add: get_symbol_def map_of_eq_None_iff)
next
  assume "remove_symbol symbol st = Inr st'"
  then have "st' = st\<lparr>symtable := AList.delete (fst (tr_symbol st symbol)) (symtable st)\<rparr>"
    by (rule remove_symbol_result)
  then show "get_symbol symbol st' = None"
    by (simp add: get_symbol_def tr_symbol_def delete_conv')
next
  show "get_symbol symbol initial_state = None"
    by (simp add: get_symbol_def initial_state_def)
next
  assume "get_symbol symbol st = None"
  then show "increment_symbol_usage symbol lineno amount st = Inl (UnknownSymbol lineno symbol)"
    by (simp add: increment_symbol_usage_def)
qed

theorem get_symbol_total_witness:
  "get_symbol ''a'' table_with_a = Some [(''name'', PStr ''a''), (''type'', PStr ''VAR'')]
   \<and> get_symbol ''b'' table_with_a = None
   \<and> remove_symbol ''a'' table_with_a = Inr initial_state
   \<and> get_symbol ''a'' initial_state = None
   \<and> increment_symbol_usage ''unknown'' (PInt 3) 1 initial_state =
       Inl (UnknownSymbol (PInt 3) ''unknown'')"
  using get_symbol_total [of table_with_a "''a''" initial_state]
        get_symbol_total [of table_with_a "''b''"]
        get_symbol_total [of initial_state "''unknown''" _ "PInt 3" 1]
  by (simp add: table_with_a_def initial_state_def tr_symbol_def remove_symbol_def
        get_symbol_def)


text \<open>
  Claim C7 says that no public operation can change the \<^verbatim>\<open>name\<close> or the \<^verbatim>\<open>type\<close> of
  an entry after its creation. For the type this fails: \<^verbatim>\<open>set_symbol\<close> guards
  \<^verbatim>\<open>name\<close> and \<^verbatim>\<open>lineno\<close> only, so after \<^verbatim>\<open>add_symbol("f", "FUNC")\<close> the call
  \<^verbatim>\<open>set_symbol("f", type="VAR")\<close> succeeds and the entry's type is \<^verbatim>\<open>VAR\<close>.
\<close>

theorem set_symbol_overwrites_type:
  "add_symbol ''f'' (PStr ''FUNC'') [] initial_state =
     Inr \<lparr>symtable = [(''f'', [(''name'', PStr ''f''), (''type'', PStr ''FUNC'')])],
          case_insensitive_symtable = False\<rparr>
   \<and> set_symbol ''f'' [(''type'', PStr ''VAR'')]
       \<lparr>symtable = [(''f'', [(''name'', PStr ''f''), (''type'', PStr ''FUNC'')])],
          case_insensitive_symtable = False\<rparr> =
     Inr \<lparr>symtable = [(''f'', [(''name'', PStr ''f''), (''type'', PStr ''VAR'')])],
          case_insensitive_symtable = False\<rparr>"
  by (simp add: add_symbol_def new_entry_def tr_symbol_def initial_state_def set_symbol_def
        dict_update_def)

lemma name_unchanged_by_step:
  assumes "reachable st" and "exec operation st = Inr st1"
      and "map_of (symtable st) k = Some e0" and "map_of (symtable st1) k = Some e1"
  shows "map_of e1 ''name'' = map_of e0 ''name'' \<and> map_of e0 ''name'' = Some (PStr k)"
proof -
  from assms(1) have inv0: "names_are_keys (symtable st)"
    by (rule reachable_names)
  with assms(2) have inv1: "names_are_keys (symtable st1)"
    by (blast dest: exec_names)
  from inv0 assms(3) have "map_of e0 ''name'' = Some (PStr k)"
    by (rule names_are_keys_lookup)
  moreover from inv1 assms(4) have "map_of e1 ''name'' = Some (PStr k)"
    by (rule names_are_keys_lookup)
  ultimately show ?thesis by simp
qed

lemma add_symbol_creates:
  assumes "get_symbol symbol st = None"
  shows "\<exists>st' e. add_symbol symbol sym_type kwargs st = Inr st' \<and>
         get_symbol symbol st' = Some e \<and>
         map_of e ''name'' = Some (PStr (fst (tr_symbol st symbol))) \<and>
         map_of e ''type'' = Some sym_type"
proof -
  from assms have "add_symbol symbol sym_type kwargs st =
        Inr (new_entry (fst (tr_symbol st symbol)) sym_type kwargs st)"
    by (auto simp: get_symbol_def add_symbol_def tr_symbol_def)
  then show ?thesis
    by (simp add: get_symbol_new_entry update_conv')
qed

lemma set_symbol_rejects_name:
  "''name'' \<in> fst ` set kwargs \<Longrightarrow> \<exists>err. set_symbol symbol kwargs st = Inl err"
  by (auto simp: set_symbol_def tr_symbol_def split: option.splits)

lemma set_symbol_writes_type:
  assumes "get_symbol symbol st \<noteq> None"
  shows "\<exists>st2 e2. set_symbol symbol [(''type'', t)] st = Inr st2 \<and>
           get_symbol symbol st2 = Some e2 \<and> map_of e2 ''type'' = Some t"
proof -
  from assms obtain obj where obj: "map_of (symtable st) (fst (tr_symbol st symbol)) = Some obj"
    by (auto simp: get_symbol_def)
  then have "set_symbol symbol [(''type'', t)] st =
      Inr (st\<lparr>symtable := AList.update (fst (tr_symbol st symbol))
                           (dict_update obj [(''type'', t)]) (symtable st)\<rparr>)"
    by (auto simp: set_symbol_def tr_symbol_def)
  then show ?thesis
    by (simp add: get_symbol_def tr_symbol_def update_conv')
qed

lemma keeps_types_refl: "keeps_types tab tab"
  by (simp add: keeps_types_def)

lemma keeps_types_trans:
  "keeps_types tab tab1 \<Longrightarrow> keeps_types tab1 tab2 \<Longrightarrow> keeps_types tab tab2"
  unfolding keeps_types_def by (metis (no_types, lifting))

lemma keeps_types_lookup:
  assumes "keeps_types tab tab'" and "map_of tab k = Some e0" and "map_of tab' k = Some e1"
  shows "map_of e1 ''type'' = map_of e0 ''type''"
proof -
  from assms(1,2) obtain e where "map_of tab' k = Some e" "map_of e ''type'' = map_of e0 ''type''"
    unfolding keeps_types_def by blast
  with assms(3) show ?thesis by simp
qed

lemma set_symbol_keeps_types:
  assumes "set_symbol symbol kwargs st = Inr st'" and "''type'' \<notin> fst ` set kwargs"
  shows "keeps_types (symtable st) (symtable st')"
proof -
  from assms(1) obtain obj where obj: "map_of (symtable st) (fst (tr_symbol st symbol)) = Some obj"
    and st': "st' = st\<lparr>symtable := AList.update (fst (tr_symbol st symbol))
                                  (dict_update obj kwargs) (symtable st)\<rparr>"
    by (blast dest: set_symbol_result)
  show ?thesis
    unfolding keeps_types_def st'
    using obj assms(2) by (auto simp: update_conv' map_of_dict_update_other)
qed

lemma loader_keeps_types:
  assumes "loader st = Inr st'"
  shows "keeps_types (symtable st) (symtable st')"
proof -
  have "\<forall>name v s s'. set_symbol name [(''pc'', v)] s = Inr s' \<longrightarrow>
          keeps_types (symtable st) (symtable s) \<longrightarrow> keeps_types (symtable st) (symtable s')"
  proof (intro allI impI)
    fix name v s s'
    assume a: "set_symbol name [(''pc'', v)] s = Inr s'"
       and b: "keeps_types (symtable st) (symtable s)"
    from a have "keeps_types (symtable s) (symtable s')"
      by (rule set_symbol_keeps_types) simp
    with b show "keeps_types (symtable st) (symtable s')"
      by (rule keeps_types_trans)
  qed
  then show ?thesis
    using loader_preserves [of "\<lambda>s. keeps_types (symtable st) (symtable s)" st st']
          assms keeps_types_refl
    by blast
qed

lemma type_unchanged_by_step:
  assumes r: "reachable st" and ex: "exec operation st = Inr st1"
      and e0: "map_of (symtable st) k = Some e0" and e1: "map_of (symtable st1) k = Some e1"
      and op: "\<forall>s kw. operation = Set_symbol s kw \<longrightarrow> ''type'' \<notin> fst ` set kw"
  shows "map_of e1 ''type'' = map_of e0 ''type''"
proof (cases operation)
  case (Add_symbol symbol sym_type kwargs)
  with ex have res: "map_of (symtable st) (fst (tr_symbol st symbol)) = None \<or>
          map_of (symtable st) (fst (tr_symbol st symbol)) = Some []"
      and st1: "st1 = new_entry (fst (tr_symbol st symbol)) sym_type kwargs st"
    by (auto dest: add_symbol_result)
  from r e0 have "map_of e0 ''name'' = Some (PStr k)"
    by (blast intro: names_are_keys_lookup reachable_names)
  then have "e0 \<noteq> []" by auto
  with res e0 have "k \<noteq> fst (tr_symbol st symbol)" by auto
  with e0 e1 show ?thesis
    by (simp add: st1 new_entry_def update_conv')
next
  case (Set_symbol symbol kwargs)
  with ex op have "keeps_types (symtable st) (symtable st1)"
    by (auto intro: set_symbol_keeps_types)
  then show ?thesis using e0 e1 by (rule keeps_types_lookup)
next
  case (Remove_symbol symbol)
  with ex have "st1 = st\<lparr>symtable := AList.delete (fst (tr_symbol st symbol)) (symtable st)\<rparr>"
    by (auto dest: remove_symbol_result)
  with e0 e1 show ?thesis
    by (auto simp: delete_conv' split: if_splits)
next
  case (Increment_symbol_usage symbol lineno amount)
  with ex obtain usage where "set_symbol symbol [(''usage'', usage)] st = Inr st1"
    by (auto simp: increment_symbol_usage_def split: option.splits sum.splits)
  then have "keeps_types (symtable st) (symtable st1)"
    by (rule set_symbol_keeps_types) simp
  then show ?thesis using e0 e1 by (rule keeps_types_lookup)
next
  case Loader
  with ex have "keeps_types (symtable st) (symtable st1)"
    by (auto intro: loader_keeps_types)
  then show ?thesis using e0 e1 by (rule keeps_types_lookup)
next
  case (Set_case_insensitive b)
  with ex e0 e1 show ?thesis by auto
qed

lemma step_facts:
  assumes "reachable st" and "exec operation st = Inr st1"
      and "map_of (symtable st) k = Some e0" and "map_of (symtable st1) k = Some e1"
  shows "map_of e1 ''name'' = map_of e0 ''name'' \<and> map_of e0 ''name'' = Some (PStr k) \<and>
         map_of e0 ''type'' \<noteq> None \<and>
         ((\<forall>s kw. operation = Set_symbol s kw \<longrightarrow> ''type'' \<notin> fst ` set kw) \<longrightarrow>
            map_of e1 ''type'' = map_of e0 ''type'')"
  using name_unchanged_by_step [OF assms] type_unchanged_by_step [OF assms]
        entries_have_type_lookup [OF reachable_types [OF assms(1)] assms(3)]
  by blast

text \<open>
  Claim C7 as amended: \<^verbatim>\<open>add_symbol\<close> on a name that is not in the table creates an
  entry whose \<^verbatim>\<open>name\<close> is the translated name and whose \<^verbatim>\<open>type\<close> is the given type.
  In every table reachable from the empty one by public operations, an entry that a
  successful operation leaves under its key keeps its \<^verbatim>\<open>name\<close>, which is that key, and
  it has a \<^verbatim>\<open>type\<close>, which it keeps too unless the operation is a \<^verbatim>\<open>set_symbol\<close> call
  that carries the attribute \<^verbatim>\<open>type\<close>. \<^verbatim>\<open>set_symbol\<close> raises on an update that carries
  \<^verbatim>\<open>name\<close>; with a \<^verbatim>\<open>type\<close> attribute it succeeds on every present name and
  overwrites the type.
\<close>

theorem name_fixed_at_creation:
  "(get_symbol symbol st = None \<longrightarrow>
      (\<exists>st' e. add_symbol symbol sym_type kwargs st = Inr st' \<and>
         get_symbol symbol st' = Some e \<and>
         map_of e ''name'' = Some (PStr (fst (tr_symbol st symbol))) \<and>
         map_of e ''type'' = Some sym_type))
   \<and> (reachable st \<and> exec operation st = Inr st1 \<and> map_of (symtable st) k = Some e0 \<and>
        map_of (symtable st1) k = Some e1 \<longrightarrow>
        map_of e1 ''name'' = map_of e0 ''name'' \<and> map_of e0 ''name'' = Some (PStr k) \<and>
        map_of e0 ''type'' \<noteq> None \<and>
        ((\<forall>s kw. operation = Set_symbol s kw \<longrightarrow> ''type'' \<notin> fst ` set kw) \<longrightarrow>
           map_of e1 ''type'' = map_of e0 ''type''))
   \<and> (''name'' \<in> fst ` set kwargs \<longrightarrow> (\<exists>err. set_symbol symbol kwargs st = Inl err))
   \<and> (get_symbol symbol st \<noteq> None \<longrightarrow>
        (\<exists>st2 e2. set_symbol symbol [(''type'', t)] st = Inr st2 \<and>
           get_symbol symbol st2 = Some e2 \<and> map_of e2 ''type'' = Some t))"
  using add_symbol_creates [of symbol st sym_type kwargs]
        step_facts [of st operation st1 k e0 e1]
        set_symbol_rejects_name [of kwargs symbol st]
        set_symbol_writes_type [of symbol st t]
  by blast

theorem name_fixed_at_creation_witness:
  "get_symbol ''f'' initial_state = None
   \<and> (\<exists>st' e. add_symbol ''f'' (PStr ''FUNC'') [] initial_state = Inr st' \<and>
         get_symbol ''f'' st' = Some e \<and>
         map_of e ''name'' = Some (PStr ''f'') \<and> map_of e ''type'' = Some (PStr ''FUNC''))
   \<and> reachable table_with_f
   \<and> exec (Set_symbol ''f'' [(''pc'', PInt 3)]) table_with_f = Inr table_with_f_pc
   \<and> map_of [(''name'', PStr ''f''), (''type'', PStr ''FUNC''), (''pc'', PInt 3)] ''name'' =
       Some (PStr ''f'')
   \<and> map_of [(''name'', PStr ''f''), (''type'', PStr ''FUNC''), (''pc'', PInt 3)] ''type'' =
       map_of [(''name'', PStr ''f''), (''type'', PStr ''FUNC'')] ''type''
   \<and> (\<exists>err. set_symbol ''f'' [(''name'', PStr ''g'')] table_with_f = Inl err)
   \<and> (\<exists>st2 e2. set_symbol ''f'' [(''type'', PStr ''VAR'')] table_with_f = Inr st2 \<and>
           get_symbol ''f'' st2 = Some e2 \<and> map_of e2 ''type'' = Some (PStr ''VAR''))"
proof -
  have a: "add_symbol ''f'' (PStr ''FUNC'') [] initial_state = Inr table_with_f"
    by (simp add: add_symbol_def new_entry_def tr_symbol_def initial_state_def table_with_f_def)
  have r: "reachable table_with_f"
    using reachable_step [OF reachable_initial, of "Add_symbol ''f'' (PStr ''FUNC'') []"] a
    by simp
  have s: "exec (Set_symbol ''f'' [(''pc'', PInt 3)]) table_with_f = Inr table_with_f_pc"
    by (simp add: set_symbol_def tr_symbol_def table_with_f_def table_with_f_pc_def
          dict_update_def)
  have g: "get_symbol ''f'' initial_state = None" "get_symbol ''f'' table_with_f \<noteq> None"
    by (simp_all add: get_symbol_def initial_state_def table_with_f_def tr_symbol_def)
  show ?thesis
    using name_fixed_at_creation [of "''f''" initial_state "PStr ''FUNC''" "[]"]
          name_fixed_at_creation [of "''f''" table_with_f _ "[(''name'', PStr ''g'')]"
            "Set_symbol ''f'' [(''pc'', PInt 3)]" table_with_f_pc "''f''"
            "[(''name'', PStr ''f''), (''type'', PStr ''FUNC'')]"
            "[(''name'', PStr ''f''), (''type'', PStr ''FUNC''), (''pc'', PInt 3)]" "PStr ''VAR''"]
          r s g
    by (simp add: tr_symbol_def initial_state_def table_with_f_def table_with_f_pc_def)
qed

section \<open>Properties of the loader\<close>

lemma tr_L1: "fst (tr_symbol st ''L1'') = ''L1''" "fst (tr_symbol st ''L2'') = ''L2''"
  by (simp_all add: tr_symbol_def upper_def upper_char_def)

lemma set_symbol_pc:
  assumes "map_of (symtable st) (fst (tr_symbol st name)) = Some obj"
  shows "set_symbol name [(''pc'', v)] st =
           Inr (st\<lparr>symtable := AList.update (fst (tr_symbol st name))
                                   (dict_update obj [(''pc'', v)]) (symtable st)\<rparr>)"
  using assms by (auto simp: set_symbol_def tr_symbol_def)

lemma split1_L1: "split1 ''LABEL L1'' = [''LABEL'', ''L1'']" "split1 ''LABEL L2'' = [''LABEL'', ''L2'']"
  by (simp_all add: split1_def)

lemma load_func_example:
  assumes code: "map_of data ''code'' = Some (PList [PStr ''LABEL L1'', PStr ''PUSH 1'', PStr ''LABEL L2''])"
      and l1: "get_symbol ''L1'' st \<noteq> None" and l2: "get_symbol ''L2'' st \<noteq> None"
  shows "\<exists>st' e1 e2. load_func f data st = Inr st' \<and>
           get_symbol ''L1'' st' = Some e1 \<and> map_of e1 ''pc'' = Some (PInt 0) \<and>
           get_symbol ''L2'' st' = Some e2 \<and> map_of e2 ''pc'' = Some (PInt 2)"
proof -
  from l1 obtain o1 where o1: "map_of (symtable st) ''L1'' = Some o1"
    by (auto simp: get_symbol_def tr_L1)
  from l2 obtain o2 where o2: "map_of (symtable st) ''L2'' = Some o2"
    by (auto simp: get_symbol_def tr_L1)
  define st1 where "st1 = st\<lparr>symtable := AList.update ''L1'' (dict_update o1 [(''pc'', PInt 0)]) (symtable st)\<rparr>"
  define st2 where "st2 = st1\<lparr>symtable := AList.update ''L2'' (dict_update o2 [(''pc'', PInt 2)]) (symtable st1)\<rparr>"
  have s1: "load_cmd 0 (PStr ''LABEL L1'') st = Inr st1"
    using set_symbol_pc [of st "''L1''" o1 "PInt 0"] o1
    by (simp add: load_cmd_def split1_L1 tr_L1 st1_def)
  have s2: "load_cmd (Suc 0) (PStr ''PUSH 1'') st1 = Inr st1"
    by (simp add: load_cmd_def)
  have o2': "map_of (symtable st1) ''L2'' = Some o2"
    using o2 by (simp add: st1_def update_conv')
  have s3: "load_cmd (Suc (Suc 0)) (PStr ''LABEL L2'') st1 = Inr st2"
    using set_symbol_pc [of st1 "''L2''" o2 "PInt 2"] o2'
    by (simp add: load_cmd_def split1_L1 tr_L1 st2_def)
  have "zip [0..<length [PStr ''LABEL L1'', PStr ''PUSH 1'', PStr ''LABEL L2'']]
          [PStr ''LABEL L1'', PStr ''PUSH 1'', PStr ''LABEL L2''] =
        [(0, PStr ''LABEL L1''), (Suc 0, PStr ''PUSH 1''), (Suc (Suc 0), PStr ''LABEL L2'')]"
    by (simp add: upt_rec)
  then have "load_func f data st = Inr st2"
    using s1 s2 s3 code by (simp add: load_func_def py_iter_def)
  moreover have "get_symbol ''L1'' st2 = Some (dict_update o1 [(''pc'', PInt 0)])"
    by (simp add: get_symbol_def tr_L1 st2_def st1_def update_conv')
  moreover have "get_symbol ''L2'' st2 = Some (dict_update o2 [(''pc'', PInt 2)])"
    by (simp add: get_symbol_def tr_L1 st2_def st1_def update_conv')
  ultimately show ?thesis by simp
qed

lemma load_func_no_code:
  "map_of data ''code'' = None \<Longrightarrow> load_func g data st = Inl (UndefinedReference ''FUNCTION'' g)"
  by (simp add: load_func_def)

lemma load_funcs_append:
  "load_funcs (pre @ rest) st =
     (case load_funcs pre st of Inl e \<Rightarrow> Inl e | Inr st1 \<Rightarrow> load_funcs rest st1)"
  by (induction pre arbitrary: st) (auto split: sum.splits)

lemma load_funcs_fails:
  "(g, d) \<in> set funcs \<Longrightarrow> (\<And>st. \<exists>e. load_func g d st = Inl e) \<Longrightarrow>
   \<exists>e. load_funcs funcs st = Inl e"
proof (induction funcs arbitrary: st)
  case Nil
  then show ?case by simp
next
  case (Cons a funcs)
  obtain s dat where a: "a = (s, dat)" by (cases a)
  show ?case
  proof (cases "load_func s dat st")
    case (Inl e)
    then show ?thesis by (simp add: a)
  next
    case (Inr st1)
    show ?thesis
    proof (cases "(g, d) = (s, dat)")
      case True
      with Cons.prems(2) [of st] Inr show ?thesis by auto
    next
      case False
      with Cons.prems(1) a have "(g, d) \<in> set funcs" by auto
      then have "\<exists>e. load_funcs funcs st1 = Inl e"
        using Cons.prems(2) by (rule Cons.IH)
      with Inr show ?thesis by (simp add: a)
    qed
  qed
qed

lemma by_class_member:
  "by_class t tab = Inr found \<Longrightarrow> (k, v) \<in> set tab \<Longrightarrow> map_of v ''type'' = Some t \<Longrightarrow>
   (k, v) \<in> set found"
  by (induction tab arbitrary: found) (auto split: option.splits sum.splits if_splits)

lemma loader_fails_if_func_fails:
  assumes "(g, d) \<in> set (symtable st)" and "map_of d ''type'' = Some (PStr ''FUNC'')"
      and "\<And>st. \<exists>e. load_func g d st = Inl e"
  shows "\<exists>e. loader st = Inl e"
proof (cases "get_symbols_by_class (PStr ''FUNC'') st")
  case (Inl e)
  then show ?thesis by (simp add: loader_def)
next
  case (Inr funcs)
  with assms(1,2) have "(g, d) \<in> set funcs"
    by (auto simp: get_symbols_by_class_def dest: by_class_member)
  then have "\<exists>e. load_funcs funcs st = Inl e"
    using assms(3) by (rule load_funcs_fails)
  with Inr show ?thesis by (simp add: loader_def)
qed


lemma set_symbol_keeps_symbols:
  "set_symbol name kwargs st = Inr st' \<Longrightarrow> get_symbol n st \<noteq> None \<Longrightarrow>
   get_symbol n st' \<noteq> None"
  by (drule set_symbol_result) (auto simp: get_symbol_def tr_symbol_def update_conv')

lemma load_cmd_keeps_symbols:
  "load_cmd addr cmd st = Inr st' \<Longrightarrow> get_symbol n st \<noteq> None \<Longrightarrow> get_symbol n st' \<noteq> None"
  by (auto simp: load_cmd_def split: pyval.splits if_splits list.splits
           dest: set_symbol_keeps_symbols)

lemma load_code_keeps_symbols:
  "load_code cmds st = Inr st' \<Longrightarrow> get_symbol n st \<noteq> None \<Longrightarrow> get_symbol n st' \<noteq> None"
  by (induction cmds st rule: load_code.induct)
     (auto split: sum.splits dest: load_cmd_keeps_symbols)

lemma load_func_keeps_symbols:
  "load_func f data st = Inr st' \<Longrightarrow> get_symbol n st \<noteq> None \<Longrightarrow> get_symbol n st' \<noteq> None"
  by (auto simp: load_func_def Let_def split: if_splits sum.splits
           dest: load_code_keeps_symbols)

lemma load_funcs_keeps_symbols:
  "load_funcs funcs st = Inr st' \<Longrightarrow> get_symbol n st \<noteq> None \<Longrightarrow> get_symbol n st' \<noteq> None"
  by (induction funcs st rule: load_funcs.induct)
     (auto split: sum.splits dest: load_func_keeps_symbols)

lemma loader_last_func_example:
  assumes funcs: "get_symbols_by_class (PStr ''FUNC'') st = Inr (pre @ [(f, data)])"
      and pre: "load_funcs pre st = Inr st1"
      and code: "map_of data ''code'' =
                   Some (PList [PStr ''LABEL L1'', PStr ''PUSH 1'', PStr ''LABEL L2''])"
      and l1: "get_symbol ''L1'' st \<noteq> None" and l2: "get_symbol ''L2'' st \<noteq> None"
  shows "\<exists>st' e1 e2. loader st = Inr st' \<and>
           get_symbol ''L1'' st' = Some e1 \<and> map_of e1 ''pc'' = Some (PInt 0) \<and>
           get_symbol ''L2'' st' = Some e2 \<and> map_of e2 ''pc'' = Some (PInt 2)"
proof -
  from pre l1 have "get_symbol ''L1'' st1 \<noteq> None" by (rule load_funcs_keeps_symbols)
  moreover from pre l2 have "get_symbol ''L2'' st1 \<noteq> None" by (rule load_funcs_keeps_symbols)
  ultimately obtain st' e1 e2 where "load_func f data st1 = Inr st'"
      "get_symbol ''L1'' st' = Some e1" "map_of e1 ''pc'' = Some (PInt 0)"
      "get_symbol ''L2'' st' = Some e2" "map_of e2 ''pc'' = Some (PInt 2)"
    using load_func_example [OF code] by blast
  moreover from this(1) pre have "loader st = Inr st'"
    by (simp add: loader_def funcs load_funcs_append)
  ultimately show ?thesis by blast
qed

lemma loader_first_missing_code:
  assumes "get_symbols_by_class (PStr ''FUNC'') st = Inr (pre @ (g, d) # post)"
      and "load_funcs pre st = Inr st1" and "map_of d ''code'' = None"
  shows "loader st = Inl (UndefinedReference ''FUNCTION'' g)"
  using assms by (simp add: loader_def load_funcs_append load_func_no_code)

lemma loader_missing_code_fails:
  assumes "(g, d) \<in> set (symtable st)" and "map_of d ''type'' = Some (PStr ''FUNC'')"
      and "map_of d ''code'' = None"
  shows "\<exists>e. loader st = Inl e"
  using assms(1,2)
  by (rule loader_fails_if_func_fails) (simp add: load_func_no_code assms(3))

text \<open>
  Claim C3: running the loader when a \<^verbatim>\<open>FUNC\<close> symbol holds
  \<^verbatim>\<open>code = ["LABEL L1", "PUSH 1", "LABEL L2"]\<close> and the symbols \<^verbatim>\<open>L1\<close> and \<^verbatim>\<open>L2\<close>
  exist sets the \<^verbatim>\<open>pc\<close> of \<^verbatim>\<open>L1\<close> to 0 and the \<^verbatim>\<open>pc\<close> of \<^verbatim>\<open>L2\<close> to 2: here for
  every table, in either case mode, in which that symbol is the last of the \<^verbatim>\<open>FUNC\<close>
  symbols and the ones before it load without an exception (in particular when it is the
  only one). A \<^verbatim>\<open>FUNC\<close> symbol with no \<^verbatim>\<open>code\<close> makes the loader raise the
  undefined-reference error that names it, as soon as the loop reaches it; and whenever
  the table holds such a symbol the loader raises.
\<close>

theorem loader_resolves_labels:

  "(get_symbols_by_class (PStr ''FUNC'') st = Inr (pre @ [(f, data)]) \<and>
    load_funcs pre st = Inr st1 \<and>
    map_of data ''code'' = Some (PList [PStr ''LABEL L1'', PStr ''PUSH 1'', PStr ''LABEL L2'']) \<and>
    get_symbol ''L1'' st \<noteq> None \<and> get_symbol ''L2'' st \<noteq> None \<longrightarrow>
      (\<exists>st' e1 e2. loader st = Inr st' \<and>
           get_symbol ''L1'' st' = Some e1 \<and> map_of e1 ''pc'' = Some (PInt 0) \<and>
           get_symbol ''L2'' st' = Some e2 \<and> map_of e2 ''pc'' = Some (PInt 2)))
   \<and> (get_symbols_by_class (PStr ''FUNC'') st = Inr (pre @ (g, d) # post) \<and>
       load_funcs pre st = Inr st1 \<and> map_of d ''code'' = None \<longrightarrow>
         loader st = Inl (UndefinedReference ''FUNCTION'' g))
   \<and> ((g, d) \<in> set (symtable st) \<and> map_of d ''type'' = Some (PStr ''FUNC'') \<and>
       map_of d ''code'' = None \<longrightarrow> (\<exists>e. loader st = Inl e))"
  using loader_last_func_example [of st pre f data st1]
        loader_first_missing_code [of st pre g d post st1]
        loader_missing_code_fails [of g d st]
  by blast


theorem loader_resolves_labels_witness:
  "get_symbols_by_class (PStr ''FUNC'') table_with_labels = Inr ([] @ [(''main'', main_entry)])
   \<and> load_funcs [] table_with_labels = Inr table_with_labels
   \<and> get_symbol ''L1'' table_with_labels \<noteq> None
   \<and> get_symbol ''L2'' table_with_labels \<noteq> None
   \<and> (\<exists>st' e1 e2. loader table_with_labels = Inr st' \<and>
           get_symbol ''L1'' st' = Some e1 \<and> map_of e1 ''pc'' = Some (PInt 0) \<and>
           get_symbol ''L2'' st' = Some e2 \<and> map_of e2 ''pc'' = Some (PInt 2))
   \<and> get_symbols_by_class (PStr ''FUNC'') table_without_code =
        Inr ([(''h'', helper_entry)] @ (''g'', [(''name'', PStr ''g''), (''type'', PStr ''FUNC'')]) # [])
   \<and> load_funcs [(''h'', helper_entry)] table_without_code = Inr table_without_code
   \<and> loader table_without_code = Inl (UndefinedReference ''FUNCTION'' ''g'')"
proof -
  have a: "get_symbols_by_class (PStr ''FUNC'') table_with_labels =
             Inr ([] @ [(''main'', main_entry)])"
    by (simp add: get_symbols_by_class_def table_with_labels_def main_entry_def)
  have b: "get_symbol ''L1'' table_with_labels \<noteq> None"
          "get_symbol ''L2'' table_with_labels \<noteq> None"
    by (simp_all add: get_symbol_def tr_symbol_def table_with_labels_def)
  have c: "map_of main_entry ''code'' =
             Some (PList [PStr ''LABEL L1'', PStr ''PUSH 1'', PStr ''LABEL L2''])"
    by (simp add: main_entry_def)
  have d: "get_symbols_by_class (PStr ''FUNC'') table_without_code =
        Inr ([(''h'', helper_entry)] @ (''g'', [(''name'', PStr ''g''), (''type'', PStr ''FUNC'')]) # [])"
    by (simp add: get_symbols_by_class_def table_without_code_def helper_entry_def)
  have e: "load_funcs [(''h'', helper_entry)] table_without_code = Inr table_without_code"
    by (simp add: load_func_def helper_entry_def py_iter_def load_cmd_def)
  show ?thesis
    using loader_resolves_labels [of table_with_labels "[]" "''main''" main_entry
            table_with_labels]
          loader_resolves_labels [of table_without_code "[(''h'', helper_entry)]" _ _
            table_without_code "''g''" "[(''name'', PStr ''g''), (''type'', PStr ''FUNC'')]" "[]"]
          a b c d e
    by simp
qed


lemma load_cmd_bare_label:
  "prefix ''LABEL'' cmd \<Longrightarrow> CHR '' '' \<notin> set cmd \<Longrightarrow>
   split1 cmd = [cmd] \<and> load_cmd addr (PStr cmd) st = Inl ValueError"
  by (simp add: load_cmd_def split1_def)

lemma load_code_fails:
  "(a, c) \<in> set cmds \<Longrightarrow> (\<And>st. \<exists>e. load_cmd a c st = Inl e) \<Longrightarrow>
   \<exists>e. load_code cmds st = Inl e"
proof (induction cmds arbitrary: st)
  case Nil
  then show ?case by simp
next
  case (Cons x cmds)
  obtain a' c' where x: "x = (a', c')" by (cases x)
  show ?case
  proof (cases "load_cmd a' c' st")
    case (Inl e)
    then show ?thesis by (simp add: x)
  next
    case (Inr st1)
    show ?thesis
    proof (cases "(a, c) = (a', c')")
      case True
      with Cons.prems(2) [of st] Inr show ?thesis by auto
    next
      case False
      with Cons.prems(1) x have "(a, c) \<in> set cmds" by auto
      then have "\<exists>e. load_code cmds st1 = Inl e"
        using Cons.prems(2) by (rule Cons.IH)
      with Inr show ?thesis by (simp add: x)
    qed
  qed
qed

lemma load_code_append:
  "load_code (xs @ ys) st =
     (case load_code xs st of Inl e \<Rightarrow> Inl e | Inr st1 \<Rightarrow> load_code ys st1)"
  by (induction xs arbitrary: st) (auto split: sum.splits)

lemma enumerate_append:
  "zip [0..<length (c1 @ x # c2)] (c1 @ x # c2) =
     zip [0..<length c1] c1 @
     (length c1, x) # zip [Suc (length c1)..<length c1 + Suc (length c2)] c2"
proof -
  have a: "[0..<length c1 + Suc (length c2)] =
           [0..<length c1] @ [length c1..<length c1 + Suc (length c2)]"
    by (rule upt_add_eq_append) simp
  have b: "[length c1..<length c1 + Suc (length c2)] =
           length c1 # [Suc (length c1)..<length c1 + Suc (length c2)]"
    by (rule upt_conv_Cons) simp
  have "length (c1 @ x # c2) = length c1 + Suc (length c2)"
    by simp
  then have "zip [0..<length (c1 @ x # c2)] (c1 @ x # c2) =
        zip ([0..<length c1] @ length c1 # [Suc (length c1)..<length c1 + Suc (length c2)])
            (c1 @ x # c2)"
    using a b by presburger
  also have "\<dots> = zip [0..<length c1] c1 @
       (length c1, x) # zip [Suc (length c1)..<length c1 + Suc (length c2)] c2"
    by (simp del: upt_Suc)
  finally show ?thesis .
qed

lemma load_func_bare_label:
  assumes "map_of data ''code'' = Some (PList cmds)" and "PStr cmd \<in> set cmds"
      and "prefix ''LABEL'' cmd" and "CHR '' '' \<notin> set cmd"
  shows "\<exists>e. load_func f data st = Inl e"
proof -
  from assms(2) obtain i where i: "i < length cmds" "cmds ! i = PStr cmd"
    by (auto simp: in_set_conv_nth)
  then have "(i, PStr cmd) \<in> set (zip [0..<length cmds] cmds)"
    by (auto simp: in_set_zip intro!: exI [of _ i])
  then have "\<exists>e. load_code (zip [0..<length cmds] cmds) st = Inl e"
    by (rule load_code_fails) (simp add: load_cmd_bare_label assms(3,4))
  then show ?thesis
    using assms(1) by (auto simp: load_func_def py_iter_def)
qed

lemma loader_bare_label_fails:
  assumes "(f, data) \<in> set (symtable st)" and "map_of data ''type'' = Some (PStr ''FUNC'')"
      and "map_of data ''code'' = Some (PList cmds)" and "PStr cmd \<in> set cmds"
      and "prefix ''LABEL'' cmd" and "CHR '' '' \<notin> set cmd"
  shows "\<exists>e. loader st = Inl e"
  using assms(1,2)
  by (rule loader_fails_if_func_fails) (rule load_func_bare_label [OF assms(3-6)])

lemma loader_bare_label_first_failure:
  assumes "get_symbols_by_class (PStr ''FUNC'') st = Inr (pre @ (f, data) # post)"
      and "load_funcs pre st = Inr st1"
      and "map_of data ''code'' = Some (PList (c1 @ PStr cmd # c2))"
      and "load_code (zip [0..<length c1] c1) st1 = Inr st2"
      and "prefix ''LABEL'' cmd" and "CHR '' '' \<notin> set cmd"
  shows "loader st = Inl ValueError"
proof -
  define cmds where "cmds = c1 @ PStr cmd # c2"
  have "load_code (zip [0..<length cmds] cmds) st1 = Inl ValueError"
    unfolding cmds_def enumerate_append load_code_append
    using assms(4) load_cmd_bare_label [OF assms(5,6)] by simp
  moreover have "map_of data ''code'' = Some (PList cmds)"
    using assms(3) by (simp add: cmds_def)
  ultimately have "load_func f data st1 = Inl ValueError"
    by (simp add: load_func_def py_iter_def)
  then show ?thesis
    using assms(1,2) by (simp add: loader_def load_funcs_append)
qed

text \<open>
  Claim C10: an instruction that starts with \<^verbatim>\<open>LABEL\<close> and holds no space splits into
  one part only, so the unpacking into marker and name raises \<^verbatim>\<open>ValueError\<close> on that
  instruction: it is neither skipped nor resolved. Whenever the code list of a
  \<^verbatim>\<open>FUNC\<close> symbol of the table holds such an instruction the loader raises; the
  exception is that \<^verbatim>\<open>ValueError\<close> when the loop reaches the instruction.
\<close>

theorem loader_fails_on_label_without_name:

  "(prefix ''LABEL'' cmd \<and> CHR '' '' \<notin> set cmd \<longrightarrow>
      split1 cmd = [cmd] \<and> load_cmd addr (PStr cmd) st = Inl ValueError)
   \<and> ((f, data) \<in> set (symtable st) \<and> map_of data ''type'' = Some (PStr ''FUNC'') \<and>
       map_of data ''code'' = Some (PList cmds) \<and> PStr cmd \<in> set cmds \<and>
       prefix ''LABEL'' cmd \<and> CHR '' '' \<notin> set cmd \<longrightarrow> (\<exists>e. loader st = Inl e))
   \<and> (get_symbols_by_class (PStr ''FUNC'') st = Inr (pre @ (f, data) # post) \<and>
       load_funcs pre st = Inr st1 \<and>
       map_of data ''code'' = Some (PList (c1 @ PStr cmd # c2)) \<and>
       load_code (zip [0..<length c1] c1) st1 = Inr st2 \<and>
       prefix ''LABEL'' cmd \<and> CHR '' '' \<notin> set cmd \<longrightarrow> loader st = Inl ValueError)"
  using load_cmd_bare_label [of cmd addr st]
        loader_bare_label_fails [of f data st cmds cmd]
        loader_bare_label_first_failure [of st pre f data post st1 c1 cmd c2 st2]
  by blast

theorem loader_fails_on_label_without_name_witness:
  "prefix ''LABEL'' ''LABEL'' \<and> CHR '' '' \<notin> set ''LABEL''
   \<and> split1 ''LABEL'' = [''LABEL'']
   \<and> load_cmd 1 (PStr ''LABEL'') table_with_bare_label = Inl ValueError
   \<and> (''b'', broken_entry) \<in> set (symtable table_with_bare_label)
   \<and> map_of broken_entry ''type'' = Some (PStr ''FUNC'')
   \<and> map_of broken_entry ''code'' = Some (PList ([PStr ''PUSH 1''] @ PStr ''LABEL'' # []))
   \<and> get_symbols_by_class (PStr ''FUNC'') table_with_bare_label =
        Inr ([(''h'', helper_entry)] @ (''b'', broken_entry) # [])
   \<and> load_funcs [(''h'', helper_entry)] table_with_bare_label = Inr table_with_bare_label
   \<and> load_code (zip [0..<length [PStr ''PUSH 1'']] [PStr ''PUSH 1'']) table_with_bare_label =
        Inr table_with_bare_label
   \<and> loader table_with_bare_label = Inl ValueError"
proof -
  have a: "prefix ''LABEL'' ''LABEL''" "CHR '' '' \<notin> set ''LABEL''"
    by simp_all
  have b: "(''b'', broken_entry) \<in> set (symtable table_with_bare_label)"
    by (simp add: table_with_bare_label_def)
  have c: "map_of broken_entry ''type'' = Some (PStr ''FUNC'')"
    "map_of broken_entry ''code'' = Some (PList ([PStr ''PUSH 1''] @ PStr ''LABEL'' # []))"
    by (simp_all add: broken_entry_def)
  have d: "get_symbols_by_class (PStr ''FUNC'') table_with_bare_label =
        Inr ([(''h'', helper_entry)] @ (''b'', broken_entry) # [])"
    by (simp add: get_symbols_by_class_def table_with_bare_label_def helper_entry_def
          broken_entry_def)
  have e: "load_funcs [(''h'', helper_entry)] table_with_bare_label = Inr table_with_bare_label"
    by (simp add: load_func_def helper_entry_def py_iter_def load_cmd_def)
  have f: "load_code (zip [0..<length [PStr ''PUSH 1'']] [PStr ''PUSH 1'']) table_with_bare_label =
        Inr table_with_bare_label"
    by (simp add: load_cmd_def)
  show ?thesis
    using loader_fails_on_label_without_name [of "''LABEL''" 1 table_with_bare_label
            "''b''" broken_entry "[PStr ''PUSH 1'', PStr ''LABEL'']"
            "[(''h'', helper_entry)]" "[]" table_with_bare_label "[PStr ''PUSH 1'']" "[]"
            table_with_bare_label]
          a b c d e f
    by simp
qed

section \<open>Properties of the lexer\<close>

lemma upper_char_not_lower: "upper_char c \<notin> set ''abcdefghijklmnopqrstuvwxyz''"
  by (auto simp: upper_char_def)

lemma upper_not_reserved: "map_of reserved (upper text) = None"
proof -
  have "\<And>c. upper_char c \<noteq> CHR ''i'' \<and> upper_char c \<noteq> CHR ''t'' \<and> upper_char c \<noteq> CHR ''e''
      \<and> upper_char c \<noteq> CHR ''w'' \<and> upper_char c \<noteq> CHR ''n'' \<and> upper_char c \<noteq> CHR ''a''
      \<and> upper_char c \<noteq> CHR ''o'' \<and> upper_char c \<noteq> CHR ''s''"
    using upper_char_not_lower by (metis list.set_intros(1,2) insert_iff list.simps(15))
  then show ?thesis
    by (auto simp: reserved_def upper_def map_of_eq_None_iff)
qed


text \<open>
  Claim C4 says that a word whose case-insensitive spelling is a reserved word is
  classified as that reserved word. \<^verbatim>\<open>t_ID\<close> looks the uppercase spelling up in
  \<^verbatim>\<open>reserved\<close>, whose keys are lowercase, so the lookup never succeeds: every word,
  \<^verbatim>\<open>if\<close>, \<^verbatim>\<open>If\<close> and \<^verbatim>\<open>IF\<close> among them, is an \<^verbatim>\<open>ID\<close> token.
\<close>

theorem reserved_words_lexed_as_identifiers:
  "tok_type (t_ID text lineno lexpos) = ''ID''
   \<and> lexer_tokens ''if'' = [LexToken ''ID'' (PStr ''if'') 1 0]
   \<and> lexer_tokens ''If'' = [LexToken ''ID'' (PStr ''If'') 1 0]
   \<and> lexer_tokens ''IF'' = [LexToken ''ID'' (PStr ''IF'') 1 0]"
  by (simp add: t_ID_def reserved_get_def upper_not_reserved lexer_tokens_def t_ignore_def
        is_digit_def is_id_start_def is_id_char_def)

lemma lexer_example: "lexer_tokens example_source = example_tokens"
  by (simp add: lexer_tokens_def example_source_def example_tokens_def t_ignore_def
        is_digit_def is_id_start_def is_id_char_def t_ID_def t_NUMBER_def reserved_get_def
        reserved_def upper_def upper_char_def simple_tokens_def int_of_digits_def
        digit_value_def)

section \<open>Properties of the parser\<close>

lemma action_keeps_state:
  "(lhs, rhs, act) \<in> set grammar \<Longrightarrow> act p st = (v, st') \<Longrightarrow> st' = st"
  by (auto simp: grammar_def p_program_def p_statements_def p_statement_def p_call_func_def
        p_declare_func_def p_number_def p_id_def p_func_params_def p_func_param_def p_if_def
        p_if_else_def p_while_def p_factor_unary_def p_factor_grouped_def p_expression_def
        p_expression_term_def p_term_def p_term_factor_def p_factor_number_def)

lemma derives_keeps_state:
  "derives x ts st v ts' st' \<Longrightarrow> st' = st"
  "derives_seq xs ts st vs ts' st' \<Longrightarrow> st' = st"
proof (induction rule: derives_derives_seq.inducts)
  case (terminal ty v lineno lexpos ts st)
  show ?case by simp
next
  case (reduce lhs rhs act ts st vs ts' st' v st'')
  then show ?case by (auto dest: action_keeps_state)
next
  case (seq_nil ts st)
  show ?case by simp
next
  case (seq_cons x ts st v ts1 st1 xs vs ts2 st2)
  then show ?case by simp
qed


lemma list_extend_plain:
  "\<not> keyword_leaf v1 \<Longrightarrow> \<not> keyword_leaf v2 \<Longrightarrow>
   (\<exists>x \<in> set (list_extend [v1] v2). keyword_leaf x) = False"
  by (cases v2) (auto simp: list_extend_def py_iter_def)

lemmas action_defs =
  p_program_def p_statements_def p_statement_def p_call_func_def
  p_declare_func_def p_number_def p_id_def p_func_params_def p_func_param_def p_if_def
  p_if_else_def p_while_def p_factor_unary_def p_factor_grouped_def p_expression_def
  p_expression_term_def p_term_def p_term_factor_def p_factor_number_def
  new_leaf_def new_node_def

lemma grammar_value_plain:
  assumes "(lhs, rhs, act) \<in> set grammar" and "length vs = length rhs"
      and "\<forall>v \<in> set vs. \<not> keyword_leaf v" and "act (PNone # vs) st = (v, st')"
  shows "(\<exists>ty rest. rhs = T ty # rest \<and> ty \<in> {''TO'', ''IF'', ''WHILE''}) \<or> \<not> keyword_leaf v"
proof -
  from assms(1) have "(lhs, rhs, act) \<in> set grammar" .
  then show ?thesis
    unfolding grammar_def using assms(2-4)
    by (elim set_ConsD [elim_format] disjE; 
        clarsimp simp: action_defs length_Suc_conv list_extend_plain split: if_splits)
qed


inductive_cases derives_terminalE: "derives (T ty) ts st v ts' st'"
inductive_cases derives_seq_ConsE: "derives_seq (x # xs) ts st vs ts' st'"
inductive_cases derives_seq_NilE: "derives_seq [] ts st vs ts' st'"
inductive_cases derives_nonterminalE: "derives (N lhs) ts st v ts' st'"

lemma derives_seq_first_terminal:
  "derives_seq (T ty # xs) ts st vs ts' st' \<Longrightarrow> \<exists>t ts0. ts = t # ts0 \<and> tok_type t = ty"
  by (auto elim!: derives_seq_ConsE derives_terminalE)

lemma plain_tokens_subset: "plain_tokens ts \<Longrightarrow> set ts' \<subseteq> set ts \<Longrightarrow> plain_tokens ts'"
  by (auto simp: plain_tokens_def)

lemma derives_plain:
  "derives x ts st v ts' st' \<Longrightarrow> plain_tokens ts \<Longrightarrow> \<not> keyword_leaf v \<and> set ts' \<subseteq> set ts"
  "derives_seq xs ts st vs ts' st' \<Longrightarrow> plain_tokens ts \<Longrightarrow>
     (\<forall>v \<in> set vs. \<not> keyword_leaf v) \<and> set ts' \<subseteq> set ts \<and> length vs = length xs"
proof (induction rule: derives_derives_seq.inducts)
  case (terminal ty v lineno lexpos ts st)
  then show ?case by (auto simp: plain_tokens_def)
next
  case (reduce lhs rhs act ts st vs ts' st' v st'')
  from reduce.IH reduce.prems
  have vs: "\<forall>v \<in> set vs. \<not> keyword_leaf v" and sub: "set ts' \<subseteq> set ts"
    and len: "length vs = length rhs"
    by simp_all
  from reduce.hyps(1) len vs reduce.hyps(3)
  have "(\<exists>ty rest. rhs = T ty # rest \<and> ty \<in> {''TO'', ''IF'', ''WHILE''}) \<or> \<not> keyword_leaf v"
    by (rule grammar_value_plain)
  moreover have "\<not> (\<exists>ty rest. rhs = T ty # rest \<and> ty \<in> {''TO'', ''IF'', ''WHILE''})"
  proof
    assume "\<exists>ty rest. rhs = T ty # rest \<and> ty \<in> {''TO'', ''IF'', ''WHILE''}"
    then obtain ty rest where rhs: "rhs = T ty # rest" and ty: "ty \<in> {''TO'', ''IF'', ''WHILE''}"
      by blast
    from reduce.hyps(2) obtain t ts0 where "ts = t # ts0" "tok_type t = ty"
      unfolding rhs by (blast dest: derives_seq_first_terminal)
    with ty reduce.prems show False
      by (auto simp: plain_tokens_def)
  qed
  ultimately show ?case using sub by blast
next
  case (seq_nil ts st)
  show ?case by simp
next
  case (seq_cons x ts st v ts1 st1 xs vs ts2 st2)
  from seq_cons.IH(1) seq_cons.prems have v: "\<not> keyword_leaf v" and sub1: "set ts1 \<subseteq> set ts"
    by simp_all
  from seq_cons.prems sub1 have "plain_tokens ts1"
    by (rule plain_tokens_subset)
  with seq_cons.IH(2) have "\<forall>v \<in> set vs. \<not> keyword_leaf v" "set ts2 \<subseteq> set ts1"
    "length vs = length xs"
    by simp_all
  with v sub1 show ?case by auto
qed

lemma example_tokens_plain: "plain_tokens example_tokens"
  by (simp add: plain_tokens_def example_tokens_def)

lemma in_grammar:
  "(''program'', [N ''statements''], p_program) \<in> set grammar"
  "(''statements'', [N ''statement'', N ''statements''], p_statements) \<in> set grammar"
  "(''statements'', [], p_statements) \<in> set grammar"
  "(''statement'', [N ''declare_func''], p_statement) \<in> set grammar"
  "(''statement'', [N ''call_func''], p_statement) \<in> set grammar"
  "(''statement'', [N ''expression''], p_statement) \<in> set grammar"
  "(''call_func'', [T ''ID'', N ''func_params''], p_call_func) \<in> set grammar"
  "(''declare_func'',
      [T ''TO'', T ''ID'', N ''func_params'', N ''statements'', T ''END''], p_declare_func)
     \<in> set grammar"
  "(''number'', [T ''NUMBER''], p_number) \<in> set grammar"
  "(''id'', [T ''ID''], p_id) \<in> set grammar"
  "(''func_params'', [], p_func_params) \<in> set grammar"
  "(''func_params'', [N ''func_param'', N ''func_params''], p_func_params) \<in> set grammar"
  "(''func_param'', [T ''COLON'', N ''id''], p_func_param) \<in> set grammar"
  "(''func_param'', [N ''number''], p_func_param) \<in> set grammar"
  "(''factor'', [T ''PLUS'', N ''factor''], p_factor_unary) \<in> set grammar"
  "(''expression'', [N ''term''], p_expression_term) \<in> set grammar"
  "(''term'', [N ''factor''], p_term_factor) \<in> set grammar"
  "(''factor'', [T ''NUMBER''], p_factor_number) \<in> set grammar"
  by (simp_all add: grammar_def)

lemma d_id:
  "derives (N ''id'') (LexToken ''ID'' v l p # ts) st (PTuple [PStr ''Identifier'', v]) ts st"
  by (rule reduce [OF in_grammar(10), where vs = "[v]" and st' = st])
     (auto simp: p_id_def intro!: seq_cons seq_nil terminal)

lemma d_number:
  "derives (N ''number'') (LexToken ''NUMBER'' v l p # ts) st (PTuple [PStr ''number'', v]) ts st"
  by (rule reduce [OF in_grammar(9), where vs = "[v]" and st' = st])
     (auto simp: p_number_def intro!: seq_cons seq_nil terminal)

lemma d_param_id:
  "derives (N ''func_param'') (LexToken ''COLON'' c l p # LexToken ''ID'' v l' p' # ts) st
     (PTuple [PStr ''Parameter'', PTuple [PStr ''Identifier'', v]]) ts st"
  by (rule reduce [OF in_grammar(13),
        where vs = "[c, PTuple [PStr ''Identifier'', v]]" and st' = st])
     (auto simp: p_func_param_def intro!: seq_cons seq_nil terminal d_id)

lemma d_param_number:
  "derives (N ''func_param'') (LexToken ''NUMBER'' v l p # ts) st
     (PTuple [PStr ''Parameter'', PTuple [PStr ''number'', v]]) ts st"
  by (rule reduce [OF in_grammar(14), where vs = "[PTuple [PStr ''number'', v]]" and st' = st])
     (auto simp: p_func_param_def intro!: seq_cons seq_nil d_number)

lemma d_params_nil: "derives (N ''func_params'') ts st PNone ts st"
  by (rule reduce [OF in_grammar(11), where vs = "[]" and st' = st])
     (auto simp: p_func_params_def intro!: seq_nil)

lemma d_params_one:
  "derives (N ''func_param'') ts st v ts1 st \<Longrightarrow>
   derives (N ''func_params'') ts st (PList [v]) ts1 st"
  by (rule reduce [OF in_grammar(12), where vs = "[v, PNone]" and st' = st])
     (auto simp: p_func_params_def intro!: seq_cons seq_nil d_params_nil)

lemma d_call:
  "derives (N ''func_params'') ts st ps ts1 st \<Longrightarrow>
   derives (N ''call_func'') (LexToken ''ID'' n l p # ts) st
     (PLeaf ''Call function'' [n, ps]) ts1 st"
  by (rule reduce [OF in_grammar(7), where vs = "[n, ps]" and st' = st])
     (auto simp: p_call_func_def new_leaf_def intro!: seq_cons seq_nil terminal)

lemma d_statement_call:
  "derives (N ''call_func'') ts st v ts1 st \<Longrightarrow>
   derives (N ''statement'') ts st (PLeaf ''Statement'' [v]) ts1 st"
  by (rule reduce [OF in_grammar(5), where vs = "[v]" and st' = st])
     (auto simp: p_statement_def new_leaf_def intro!: seq_cons seq_nil)

lemma d_statements_nil: "derives (N ''statements'') ts st PNone ts st"
  by (rule reduce [OF in_grammar(3), where vs = "[]" and st' = st])
     (auto simp: p_statements_def intro!: seq_nil)

lemma d_statements_last:
  "derives (N ''statement'') ts st v ts1 st \<Longrightarrow>
   derives (N ''statements'') ts st (PList [v]) ts1 st"
  by (rule reduce [OF in_grammar(2), where vs = "[v, PNone]" and st' = st])
     (auto simp: p_statements_def intro!: seq_cons seq_nil d_statements_nil)

lemma d_statements_cons:
  "derives (N ''statement'') ts st v ts1 st \<Longrightarrow>
   derives (N ''statements'') ts1 st (PList vs) ts2 st \<Longrightarrow>
   derives (N ''statements'') ts st (PList (v # vs)) ts2 st"
  by (rule reduce [OF in_grammar(2), where vs = "[v, PList vs]" and st' = st])
     (auto simp: p_statements_def list_extend_def py_iter_def intro!: seq_cons seq_nil)

lemma d_factor_number:
  "derives (N ''factor'') (LexToken ''NUMBER'' v l p # ts) st (PLeaf ''Number'' [v]) ts st"
  by (rule reduce [OF in_grammar(18), where vs = "[v]" and st' = st])
     (auto simp: p_factor_number_def new_leaf_def intro!: seq_cons seq_nil terminal)

lemma d_factor_plus:
  "derives (N ''factor'') ts st v ts1 st \<Longrightarrow>
   derives (N ''factor'') (LexToken ''PLUS'' s l p # ts) st
     (PLeaf ''MATH EXPRESSION'' [s, v]) ts1 st"
  by (rule reduce [OF in_grammar(15), where vs = "[s, v]" and st' = st])
     (auto simp: p_factor_unary_def new_leaf_def intro!: seq_cons seq_nil terminal)

lemma d_term_factor:
  "derives (N ''factor'') ts st v ts1 st \<Longrightarrow> derives (N ''term'') ts st v ts1 st"
  by (rule reduce [OF in_grammar(17), where vs = "[v]" and st' = st])
     (auto simp: p_term_factor_def intro!: seq_cons seq_nil)

lemma d_expression_term:
  "derives (N ''term'') ts st v ts1 st \<Longrightarrow> derives (N ''expression'') ts st v ts1 st"
  by (rule reduce [OF in_grammar(16), where vs = "[v]" and st' = st])
     (auto simp: p_expression_term_def intro!: seq_cons seq_nil)

lemma d_statement_expression:
  "derives (N ''expression'') ts st v ts1 st \<Longrightarrow>
   derives (N ''statement'') ts st (PLeaf ''Statement'' [v]) ts1 st"
  by (rule reduce [OF in_grammar(6), where vs = "[v]" and st' = st])
     (auto simp: p_statement_def new_leaf_def intro!: seq_cons seq_nil)

lemma d_declare:
  "derives (N ''func_params'') ts st ps ts1 st \<Longrightarrow>
   derives (N ''statements'') ts1 st body (LexToken ''END'' e l2 p2 # ts2) st \<Longrightarrow>
   derives (N ''declare_func'') (LexToken ''TO'' kw l0 p0 # LexToken ''ID'' n l1 p1 # ts) st
     (PLeaf ''Declare function'' [kw, n, ps, body]) ts2 st"
  by (rule reduce [OF in_grammar(8), where vs = "[kw, n, ps, body, e]" and st' = st])
     (auto simp: p_declare_func_def new_leaf_def intro!: seq_cons seq_nil terminal)

lemma d_statement_declare:
  "derives (N ''declare_func'') ts st v ts1 st \<Longrightarrow>
   derives (N ''statement'') ts st (PLeaf ''Statement'' [v]) ts1 st"
  by (rule reduce [OF in_grammar(4), where vs = "[v]" and st' = st])
     (auto simp: p_statement_def new_leaf_def intro!: seq_cons seq_nil)

lemma d_program:
  "derives (N ''statements'') ts st v [] st \<Longrightarrow>
   parser_parse ts st (PNode ''Program'' [v]) st"
  unfolding parser_parse_def
  by (rule reduce [OF in_grammar(1), where vs = "[v]" and st' = st])
     (auto simp: p_program_def new_node_def intro!: seq_cons seq_nil)


lemmas d_stmt_call = d_statement_call [OF d_call]
lemmas d_stmt_plus = d_statement_expression [OF d_expression_term [OF d_term_factor [OF d_factor_plus]]]
lemmas d_stmt_declare = d_statement_declare [OF d_declare]

lemma declaration_parse:
  "parser_parse declaration_tokens st declaration_tree st"
  unfolding declaration_tokens_def declaration_tree_def
  by (rule d_program d_statements_last d_stmt_declare d_params_nil d_statements_nil)+

lemma example_parse: "parser_parse example_tokens st example_tree st"
  unfolding example_tokens_def example_tree_def
  by (rule d_program d_statements_last d_statements_cons d_stmt_call d_stmt_plus
        d_params_nil d_params_one d_param_id d_param_number d_factor_number)+

lemma declare_func_production:
  "(''declare_func'', rhs, act) \<in> set grammar \<Longrightarrow>
   rhs = [T ''TO'', T ''ID'', N ''func_params'', N ''statements'', T ''END''] \<and>
   act = p_declare_func"
  by (simp add: grammar_def)

lemma derives_declare_func:
  assumes "derives (N ''declare_func'') ts st v ts' st'"
  shows "\<exists>kw name l0 p0 l1 p1 rest params body.
           ts = LexToken ''TO'' kw l0 p0 # LexToken ''ID'' name l1 p1 # rest \<and>
           v = PLeaf ''Declare function'' [kw, name, params, body]"
proof -
  from assms obtain rhs act vs st1 where g: "(''declare_func'', rhs, act) \<in> set grammar"
      and seq: "derives_seq rhs ts st vs ts' st1" and act: "act (PNone # vs) st1 = (v, st')"
    by (auto elim: derives_nonterminalE)
  from g have rhs: "rhs = [T ''TO'', T ''ID'', N ''func_params'', N ''statements'', T ''END'']"
    and a: "act = p_declare_func"
    by (simp_all add: declare_func_production)
  from seq obtain kw l0 p0 name l1 p1 rest params body e where
      ts: "ts = LexToken ''TO'' kw l0 p0 # LexToken ''ID'' name l1 p1 # rest" and
      vs: "vs = [kw, name, params, body, e]"
    unfolding rhs by (auto elim!: derives_seq_ConsE derives_terminalE derives_seq_NilE)
  from act have "v = PLeaf ''Declare function'' [kw, name, params, body]"
    by (simp add: a vs p_declare_func_def new_leaf_def)
  with ts show ?thesis by blast
qed

text \<open>
  Claim C2 says that parsing the example text gives a program of four statements: a
  procedure declaration, a call, a conditional and an arithmetic expression. The lexer
  makes sixteen tokens of the text, the words \<^verbatim>\<open>to\<close>, \<^verbatim>\<open>end\<close>, \<^verbatim>\<open>if\<close> and \<^verbatim>\<open>then\<close>
  among them as \<^verbatim>\<open>ID\<close> tokens. The grammar derives a tree from these tokens, ten
  statements that are nine calls and the expression \<^verbatim>\<open>+ 2\<close>; and no tree it derives
  from them holds a procedure declaration or a conditional.
\<close>

theorem example_parse_has_no_declaration:
  "lexer_tokens example_source = example_tokens
   \<and> parser_parse (lexer_tokens example_source) st example_tree st
   \<and> \<not> (\<exists>st v st'. parser_parse (lexer_tokens example_source) st v st' \<and> keyword_leaf v)"
  using derives_plain(1) [OF _ example_tokens_plain] example_parse [of st]
  by (auto simp: lexer_example parser_parse_def)

text \<open>
  Claim C5 says that the action of a parsed procedure declaration registers the
  procedure name in the symbol table. Parsing the tokens of \<^verbatim>\<open>to v1 end\<close> from the
  empty table gives the tree of the declaration and leaves the table empty:
  \<^verbatim>\<open>get_symbol("v1")\<close> is \<^verbatim>\<open>None\<close> after every parse of them. The action itself,
  run on the values of that production, returns the leaf and the table it was given.
\<close>

theorem declaration_not_registered:
  "p_declare_func [PNone, PStr ''to'', PStr ''v1'', PNone, PNone, PStr ''end''] initial_state =
     (PLeaf ''Declare function'' [PStr ''to'', PStr ''v1'', PNone, PNone], initial_state)
   \<and> parser_parse declaration_tokens initial_state declaration_tree initial_state
   \<and> get_symbol ''v1'' initial_state = None
   \<and> \<not> (\<exists>v st'. parser_parse declaration_tokens initial_state v st' \<and>
                  get_symbol ''v1'' st' \<noteq> None)"
proof -
  have "get_symbol ''v1'' initial_state = None"
    by (simp add: get_symbol_def initial_state_def)
  moreover from this
  have "\<not> (\<exists>v st'. parser_parse declaration_tokens initial_state v st' \<and>
                  get_symbol ''v1'' st' \<noteq> None)"
    by (auto simp: parser_parse_def dest: derives_keeps_state(1))
  moreover
  have "p_declare_func [PNone, PStr ''to'', PStr ''v1'', PNone, PNone, PStr ''end''] initial_state =
     (PLeaf ''Declare function'' [PStr ''to'', PStr ''v1'', PNone, PNone], initial_state)"
    by (simp add: p_declare_func_def new_leaf_def)
  ultimately show ?thesis
    using declaration_parse [of initial_state] by blast
qed

text \<open>
  Claim C5 as amended: no action of the grammar changes the symbol table, so the table
  after a parse is the table before it. The action of a procedure declaration builds
  the leaf \<^verbatim>\<open>Declare function\<close> from the text of the keyword, the procedure name (the
  value of the identifier after the keyword), the parameter list and the body.
\<close>

theorem parser_leaves_symbol_table:
  "(derives x ts st v ts' st' \<longrightarrow> st' = st)
   \<and> (parser_parse ts st v st' \<longrightarrow> get_symbol name st' = get_symbol name st)
   \<and> (derives (N ''declare_func'') ts st v ts' st' \<longrightarrow>
        (\<exists>kw name l0 p0 l1 p1 rest params body.
           ts = LexToken ''TO'' kw l0 p0 # LexToken ''ID'' name l1 p1 # rest \<and>
           v = PLeaf ''Declare function'' [kw, name, params, body]))"
  using derives_keeps_state(1) [of x ts st v ts' st']
        derives_keeps_state(1) [of "N ''program''" ts st v "[]" st']
        derives_declare_func [of ts st v ts' st']
  by (auto simp: parser_parse_def)

theorem parser_leaves_symbol_table_witness:
  "derives (N ''declare_func'') declaration_tokens initial_state
     (PLeaf ''Declare function'' [PStr ''to'', PStr ''v1'', PNone, PNone]) [] initial_state
   \<and> parser_parse declaration_tokens initial_state declaration_tree initial_state
   \<and> get_symbol ''v1'' initial_state = None
   \<and> (\<exists>kw name l0 p0 l1 p1 rest params body.
         declaration_tokens = LexToken ''TO'' kw l0 p0 # LexToken ''ID'' name l1 p1 # rest \<and>
         PLeaf ''Declare function'' [PStr ''to'', PStr ''v1'', PNone, PNone] =
           PLeaf ''Declare function'' [kw, name, params, body])"
proof -
  have d: "derives (N ''declare_func'') declaration_tokens initial_state
     (PLeaf ''Declare function'' [PStr ''to'', PStr ''v1'', PNone, PNone]) [] initial_state"
    unfolding declaration_tokens_def
    by (rule d_declare d_params_nil d_statements_nil)+
  have g: "get_symbol ''v1'' initial_state = None"
    by (simp add: get_symbol_def initial_state_def)
  show ?thesis
    using parser_leaves_symbol_table [of "N ''declare_func''" declaration_tokens initial_state
            "PLeaf ''Declare function'' [PStr ''to'', PStr ''v1'', PNone, PNone]" "[]"
            initial_state]
          parser_leaves_symbol_table [of _ declaration_tokens initial_state declaration_tree _
            initial_state "''v1''"]
          d g declaration_parse [of initial_state]
    by blast
qed

end
